theory Spec2Isabelle
  imports Main "HOL-Library.AList" "HOL-Library.Multiset"
begin

section \<open>Results of a call\<close>

text \<open>
  A Python call returns a value, raises an exception or terminates the process
  (\<^verbatim>\<open>sys.exit\<close>). Only the exceptions that \<^verbatim>\<open>channel.py\<close> and the code it calls can
  raise or that it has to tell apart are listed.
\<close>

datatype error =
    KeyError string
  | TypeError
  | IndexError
  | NameError string
  | VideoNotFoundException string
  | NothingToSkip
  | DownloadError string
  | OtherException

datatype 'a outcome = Returned 'a | Raised error | Exited int

fun obind :: "'a outcome \<Rightarrow> ('a \<Rightarrow> 'b outcome) \<Rightarrow> 'b outcome" where
  "obind (Returned x) f = f x"
| "obind (Raised e) f = Raised e"
| "obind (Exited c) f = Exited c"

text \<open>
  \<^verbatim>\<open>errors._err_msg\<close> is imported by \<^verbatim>\<open>channel.py\<close> and defined elsewhere. It is taken
  as a parameter \<open>em\<close> of every function that calls it: \<open>None\<close> when the helper prints
  its message and returns, \<open>Some c\<close> when it ends the process with status \<open>c\<close>.
\<close>

definition err_msg :: "int option \<Rightarrow> unit outcome" where
  "err_msg em = (case em of None \<Rightarrow> Returned () | Some c \<Rightarrow> Exited c)"

section \<open>Value histories\<close>

text \<open>
  Modelled from the spec: \<^verbatim>\<open>Element\<close> of \<^verbatim>\<open>video.py\<close>, which is not part of the sources.
  A Value History is a sequence of (timestamp, value) snapshots that is seeded with one
  snapshot at creation and is never empty; \<open>current\<close> is the value of the last
  snapshot; \<open>update\<close> appends a snapshot only if the new value differs from the
  current one. Timestamps are natural numbers; \<open>now\<close> is the clock at the call.
\<close>

datatype 'a element = Element (seed: "nat \<times> 'a") (later: "(nat \<times> 'a) list")

definition element_new :: "nat \<Rightarrow> 'a \<Rightarrow> 'a element" where
  "element_new now data = Element (now, data) []"

definition current :: "'a element \<Rightarrow> 'a" where
  "current e = snd (last (seed e # later e))"

definition element_update :: "nat \<Rightarrow> 'a \<Rightarrow> 'a element \<Rightarrow> 'a element" where
  "element_update now data e =
     (if current e \<noteq> data then Element (seed e) (later e @ [(now, data)]) else e)"

section \<open>The persisted archive document\<close>

text \<open>
  \<^verbatim>\<open>json.load\<close> gives nested dicts, lists, strings, integers, booleans and \<^verbatim>\<open>None\<close>.
  A dict is an association list in insertion order: \<^verbatim>\<open>d[k] = v\<close> is \<open>AList.update\<close>
  (in place for a known key, at the end for a new one), \<^verbatim>\<open>del d[k]\<close> is
  \<open>AList.delete\<close>, \<^verbatim>\<open>d[k]\<close> is \<open>map_of\<close> with \<open>KeyError\<close> for a missing key.
  Non-integral numbers are left out of the document type.
\<close>

datatype json =
    JNull
  | JBool bool
  | JInt int
  | JStr string
  | JList "json list"
  | JObj "(string \<times> json) list"

type_synonym dict = "(string \<times> json) list"

definition ARCHIVE_COMPAT :: int where
  "ARCHIVE_COMPAT = 3"

definition channel_prefix :: string where
  "channel_prefix = ''https://www.youtube.com/channel/''"

definition get_item :: "dict \<Rightarrow> string \<Rightarrow> json outcome" where
  "get_item d k = (case map_of d k of None \<Rightarrow> Raised (KeyError k) | Some v \<Rightarrow> Returned v)"

text \<open>\<^verbatim>\<open>video["deleted"] = value\<close>: item assignment with a string key works on a dict only.\<close>

fun set_item :: "string \<Rightarrow> json \<Rightarrow> json \<Rightarrow> json outcome" where
  "set_item k v (JObj d) = Returned (JObj (AList.update k v d))"
| "set_item k v other = Raised TypeError"

text \<open>What \<^verbatim>\<open>for video in collection\<close> visits: the elements of a list, the characters of a
  string, the keys of a dict; anything else is not iterable.\<close>

fun py_iter :: "json \<Rightarrow> json list outcome" where
  "py_iter (JList xs) = Returned xs"
| "py_iter (JStr s) = Returned (map (\<lambda>c. JStr [c]) s)"
| "py_iter (JObj d) = Returned (map (\<lambda>kv. JStr (fst kv)) d)"
| "py_iter other = Raised TypeError"

text \<open>\<^verbatim>\<open>"https://www.youtube.com/channel/" + encoded["id"]\<close>: a string can be
  concatenated with a string only.\<close>

fun str_concat :: "string \<Rightarrow> json \<Rightarrow> json outcome" where
  "str_concat s (JStr t) = Returned (JStr (s @ t))"
| "str_concat s other = Raised TypeError"

text \<open>
  Modelled from the spec: the persisted form of a Value History,
  \<^verbatim>\<open>{history: [[timestamp, value], ...]}\<close>, which \<^verbatim>\<open>Element._to_dict\<close> of \<^verbatim>\<open>video.py\<close> writes.
\<close>

definition element_to_dict :: "bool element \<Rightarrow> json" where
  "element_to_dict e =
     JObj [(''history'', JList (map (\<lambda>(t, v). JList [JInt (int t), JBool v]) (seed e # later e)))]"

text \<open>
  The right-hand side \<^verbatim>\<open>Element.new(Video._new_empty(), False)._to_dict()\<close>, which the step
  from version 2 to version 3 evaluates once for every record. \<^verbatim>\<open>Video._new_empty\<close> belongs
  to \<^verbatim>\<open>video.py\<close> and is the parameter \<open>ne\<close>: \<open>None\<close> when it returns an item, \<open>Some e\<close> when
  it raises \<open>e\<close>. The item it returns is only kept as the owner of the history and is
  not part of the encoding. The history is seeded with \<^verbatim>\<open>False\<close> at the time \<open>now\<close> of
  the call.
\<close>

definition new_deleted :: "error option \<Rightarrow> nat \<Rightarrow> json outcome" where
  "new_deleted ne now =
     (case ne of
        Some e \<Rightarrow> Raised e
      | None \<Rightarrow> Returned (element_to_dict (element_new now False)))"

text \<open>The loop \<^verbatim>\<open>for video in ...: video["deleted"] = ...\<close> over the visited elements:
  the right-hand side is evaluated first, then the item is assigned. \<open>clock k\<close> is the
  time at the call number \<open>k\<close> of \<^verbatim>\<open>Element.new\<close> in this migration. The loop returns the
  elements as the assignments leave them.\<close>

fun add_deleted_each :: "error option \<Rightarrow> (nat \<Rightarrow> nat) \<Rightarrow> nat \<Rightarrow> json list
    \<Rightarrow> json list outcome" where
  "add_deleted_each ne clock k [] = Returned []"
| "add_deleted_each ne clock k (video # rest) =
     obind (new_deleted ne (clock k)) (\<lambda>value.
     obind (set_item ''deleted'' value video) (\<lambda>video'.
     obind (add_deleted_each ne clock (Suc k) rest) (\<lambda>rest'.
     Returned (video' # rest'))))"

text \<open>
  One of the three loops of the step from version 2 to version 3, on the collection
  stored under \<open>coll\<close>; \<open>k\<close> counts the calls of \<^verbatim>\<open>Element.new\<close> made before the loop, and
  the count after it is returned with the document. The records of a list are mutated
  in place, so the list under \<open>coll\<close> holds the extended records afterwards. A string
  or a dict is iterable too: its elements are strings, which refuse the assignment,
  and an empty one is passed over.
\<close>

definition add_deleted :: "error option \<Rightarrow> (nat \<Rightarrow> nat) \<Rightarrow> nat \<Rightarrow> string \<Rightarrow> dict
    \<Rightarrow> (dict \<times> nat) outcome" where
  "add_deleted ne clock k coll encoded =
     obind (get_item encoded coll) (\<lambda>c.
     obind (py_iter c) (\<lambda>elems.
     obind (add_deleted_each ne clock k elems) (\<lambda>elems'.
     Returned ((case c of JList xs \<Rightarrow> AList.update coll (JList elems') encoded
                        | other \<Rightarrow> encoded),
               k + length elems))))"

text \<open>The body of the branch \<^verbatim>\<open>cur == 1\<close> of \<^verbatim>\<open>migrate_step\<close>.\<close>

definition migrate_1_to_2 :: "dict \<Rightarrow> dict outcome" where
  "migrate_1_to_2 encoded =
     obind (get_item encoded ''id'') (\<lambda>i.
     obind (str_concat channel_prefix i) (\<lambda>url.
     Returned
       (AList.update ''shorts'' (JList [])
         (AList.update ''livestreams'' (JList [])
           (AList.delete ''id''
             (AList.update ''url'' url encoded))))))"

text \<open>The body of the branch \<^verbatim>\<open>cur == 2\<close> of \<^verbatim>\<open>migrate_step\<close>.\<close>

definition migrate_2_to_3 :: "error option \<Rightarrow> (nat \<Rightarrow> nat) \<Rightarrow> dict \<Rightarrow> dict outcome" where
  "migrate_2_to_3 ne clock encoded =
     obind (add_deleted ne clock 0 ''videos'' encoded) (\<lambda>(e1, k1).
     obind (add_deleted ne clock k1 ''livestreams'' e1) (\<lambda>(e2, k2).
     obind (add_deleted ne clock k2 ''shorts'' e2) (\<lambda>(e3, k3).
     Returned e3)))"

text \<open>
  \<^verbatim>\<open>migrate_step\<close>, the recursion of \<^verbatim>\<open>_migrate_archive\<close>. The branch for an unknown
  version calls \<^verbatim>\<open>_err_msg\<close> and then \<^verbatim>\<open>sys.exit(1)\<close>. The messages printed on the way
  are not modelled.
\<close>

function migrate_step :: "int option \<Rightarrow> error option \<Rightarrow> (nat \<Rightarrow> nat) \<Rightarrow> int \<Rightarrow> int \<Rightarrow> dict
    \<Rightarrow> dict outcome" where
  "migrate_step em ne clock expected_version cur encoded =
     (if cur = expected_version then Returned encoded
      else if cur = 1 then
        (case migrate_1_to_2 encoded of
           Returned encoded' \<Rightarrow>
             migrate_step em ne clock expected_version (cur + 1)
               (AList.update ''version'' (JInt (cur + 1)) encoded')
         | Raised e \<Rightarrow> Raised e
         | Exited c \<Rightarrow> Exited c)
      else if cur = 2 then
        (case migrate_2_to_3 ne clock encoded of
           Returned encoded' \<Rightarrow>
             migrate_step em ne clock expected_version (cur + 1)
               (AList.update ''version'' (JInt (cur + 1)) encoded')
         | Raised e \<Rightarrow> Raised e
         | Exited c \<Rightarrow> Exited c)
      else obind (err_msg em) (\<lambda>u. Exited 1))"
  by pat_completeness auto
termination
  by (relation "measure (\<lambda>(em, ne, clock, expected_version, cur, encoded). nat (3 - cur))") auto

declare migrate_step.simps [simp del]

definition migrate_archive :: "int option \<Rightarrow> error option \<Rightarrow> (nat \<Rightarrow> nat) \<Rightarrow> int \<Rightarrow> int \<Rightarrow> dict
    \<Rightarrow> dict outcome" where
  "migrate_archive em ne clock current_version expected_version encoded =
     migrate_step em ne clock expected_version current_version encoded"

text \<open>
  The number that Python's \<^verbatim>\<open>==\<close> and \<^verbatim>\<open>+=\<close> see in a decoded value: an integer is
  itself, \<^verbatim>\<open>True\<close> and \<^verbatim>\<open>False\<close> are 1 and 0, every other value equals no integer.
\<close>

fun py_int :: "json \<Rightarrow> int option" where
  "py_int (JInt n) = Some n"
| "py_int (JBool b) = Some (if b then 1 else 0)"
| "py_int other = None"

text \<open>
  \<^verbatim>\<open>Channel.load\<close> from the decoded file up to the call of \<^verbatim>\<open>Channel._from_dict\<close>: the
  result is the document handed to the decoder. A version that equals no integer is
  different from \<open>ARCHIVE_COMPAT\<close> and matches no branch of \<^verbatim>\<open>migrate_step\<close> but the
  last.
\<close>

definition load_document :: "int option \<Rightarrow> error option \<Rightarrow> (nat \<Rightarrow> nat) \<Rightarrow> dict
    \<Rightarrow> dict outcome" where
  "load_document em ne clock encoded =
     obind (get_item encoded ''version'') (\<lambda>archive_version.
       case py_int archive_version of
         Some v \<Rightarrow>
           if v \<noteq> ARCHIVE_COMPAT
           then migrate_archive em ne clock v ARCHIVE_COMPAT encoded
           else Returned encoded
       | None \<Rightarrow> obind (err_msg em) (\<lambda>u. Exited 1))"

section \<open>Items\<close>

text \<open>
  The attributes of a \<^verbatim>\<open>Video\<close> that \<^verbatim>\<open>channel.py\<close> reads: \<^verbatim>\<open>id\<close>, the deletion history
  \<^verbatim>\<open>deleted\<close> and the flag \<^verbatim>\<open>known_not_deleted\<close>. Modelled from the spec: \<open>uploaded\<close>,
  the upload timestamp by which items compare.
\<close>

record video =
  vid :: string
  uploaded :: int
  deleted :: "bool element"
  known_not_deleted :: bool

text \<open>
  Modelled from the spec: \<^verbatim>\<open>Video.downloaded()\<close>, true iff a media file matching the
  item's identifier exists in the media directory. \<open>files\<close> is the set of identifiers
  that have a media file.
\<close>

definition downloaded :: "string set \<Rightarrow> video \<Rightarrow> bool" where
  "downloaded files v = (vid v \<in> files)"

section \<open>The archive\<close>

text \<open>
  A \<^verbatim>\<open>Video\<close> is a mutable object that the collections, the reporter's buckets and the
  curated list of a download all refer to, so the archive holds a store from references
  to items, and every list is a list of references. \<open>next_ref\<close> is the reference the
  next \<^verbatim>\<open>Video.new\<close> gets. \<open>reporter_added\<close> and \<open>reporter_deleted\<close> are the buckets
  \<^verbatim>\<open>self.reporter.added\<close> and \<^verbatim>\<open>self.reporter.deleted\<close>. The path, the version and the
  url of the channel take no part in the operations below.
\<close>

type_synonym ref = nat

record channel =
  heap :: "ref \<Rightarrow> video"
  next_ref :: ref
  videos :: "ref list"
  livestreams :: "ref list"
  shorts :: "ref list"
  reporter_added :: "ref list"
  reporter_deleted :: "ref list"

datatype category = Videos | Livestreams | Shorts

fun bucket_of :: "category \<Rightarrow> channel \<Rightarrow> ref list" where
  "bucket_of Videos ch = videos ch"
| "bucket_of Livestreams ch = livestreams ch"
| "bucket_of Shorts ch = shorts ch"

fun set_bucket :: "category \<Rightarrow> ref list \<Rightarrow> channel \<Rightarrow> channel" where
  "set_bucket Videos b ch = ch\<lparr>videos := b\<rparr>"
| "set_bucket Livestreams b ch = ch\<lparr>livestreams := b\<rparr>"
| "set_bucket Shorts b ch = ch\<lparr>shorts := b\<rparr>"

subsection \<open>Search\<close>

fun search_from :: "(ref \<Rightarrow> video) \<Rightarrow> ref list \<Rightarrow> string \<Rightarrow> ref outcome" where
  "search_from h [] i = Raised (VideoNotFoundException i)"
| "search_from h (video # rest) i =
     (if vid (h video) = i then Returned video else search_from h rest i)"

definition search :: "channel \<Rightarrow> string \<Rightarrow> ref outcome" where
  "search ch i = search_from (heap ch) (videos ch) i"

subsection \<open>Curation\<close>

record download_config =
  max_videos :: "int option"
  max_livestreams :: "int option"
  max_shorts :: "int option"

text \<open>\<^verbatim>\<open>curate_list\<close>, local to \<^verbatim>\<open>_curate\<close>. \<^verbatim>\<open>range\<close> of a negative number is empty, and
  every index below \<open>fixed_maximum\<close> is within the list.\<close>

definition curate_list :: "string set \<Rightarrow> (ref \<Rightarrow> video) \<Rightarrow> ref list \<Rightarrow> int option \<Rightarrow> ref list" where
  "curate_list files h vs maximum =
     (let available =
        (case maximum of
           None \<Rightarrow> vs
         | Some m \<Rightarrow>
             (let fixed_maximum = min (max (int (length vs) - 1) 0) m
              in map (\<lambda>ind. vs ! ind) [0 ..< nat fixed_maximum]))
      in filter (\<lambda>video. \<not> downloaded files (h video)) available)"

definition curate :: "string set \<Rightarrow> download_config \<Rightarrow> channel \<Rightarrow> ref list" where
  "curate files config ch =
     curate_list files (heap ch) (videos ch) (max_videos config)
     @ curate_list files (heap ch) (livestreams ch) (max_livestreams config)
     @ curate_list files (heap ch) (shorts ch) (max_shorts config)"

subsection \<open>Refresh: merging the metadata\<close>

text \<open>
  One entry of the metadata that the extraction engine returns, as far as \<^verbatim>\<open>channel.py\<close>
  reads it: \<^verbatim>\<open>entry["id"]\<close> and \<^verbatim>\<open>entry["formats"]\<close>, where \<open>None\<close> means that the entry has
  no key \<^verbatim>\<open>"formats"\<close>. \<open>other_keys\<close> are the remaining keys, which only \<^verbatim>\<open>video.py\<close> reads.
\<close>

record entry =
  entry_id :: string
  formats :: "string list option"
  other_keys :: dict

text \<open>A top-level group of a nested document: \<^verbatim>\<open>entry["title"]\<close> and \<^verbatim>\<open>entry["entries"]\<close>.\<close>

record playlist =
  title :: string
  entries :: "entry list"

text \<open>
  The document \<^verbatim>\<open>res\<close>: \<open>Flat es\<close> when the first element of \<^verbatim>\<open>res["entries"]\<close> has no key
  \<^verbatim>\<open>"entries"\<close>, \<open>Nested gs\<close> when it has one.
\<close>

datatype metadata = Flat "entry list" | Nested "playlist list"

text \<open>\<^verbatim>\<open>str.split(" - ")\<close>: the pieces between the occurrences of the separator, found from
  left to right; \<open>piece\<close> is the piece read so far.\<close>

function split_dash :: "string \<Rightarrow> string \<Rightarrow> string list" where
  "split_dash piece [] = [piece]"
| "split_dash piece (c # cs) =
     (if take 3 (c # cs) = '' - '' then piece # split_dash [] (drop 2 cs)
      else split_dash (piece @ [c]) cs)"
  by pat_completeness auto
termination
  by (relation "measure (\<lambda>(piece, s). length s)") auto

text \<open>\<^verbatim>\<open>str.lower()\<close> on the letters A to Z; the three tokens compared with are ASCII, and
  no other character lower-cases to one of their letters.\<close>

definition lower_char :: "char \<Rightarrow> char" where
  "lower_char c =
     (let n = (of_char c :: nat) in if 65 \<le> n \<and> n \<le> 90 then char_of (n + 32) else c)"

definition lower :: "string \<Rightarrow> string" where
  "lower s = map lower_char s"

definition kind_of :: "string \<Rightarrow> string" where
  "kind_of t = lower (last (split_dash [] t))"

text \<open>The loop of \<^verbatim>\<open>_parse_metadata\<close> over the groups of a nested document; the triple is
  \<^verbatim>\<open>videos\<close>, \<^verbatim>\<open>livestreams\<close>, \<^verbatim>\<open>shorts\<close>.\<close>

fun normalize :: "int option \<Rightarrow> playlist list
    \<Rightarrow> entry list \<times> entry list \<times> entry list
    \<Rightarrow> (entry list \<times> entry list \<times> entry list) outcome" where
  "normalize em [] acc = Returned acc"
| "normalize em (g # gs) (vs, ls, ss) =
     (let kind = kind_of (title g) in
      if kind = ''videos'' then normalize em gs (entries g, ls, ss)
      else if kind = ''live'' then normalize em gs (vs, entries g, ss)
      else if kind = ''shorts'' then normalize em gs (vs, ls, entries g)
      else obind (err_msg em) (\<lambda>u. normalize em gs (vs, ls, ss)))"

text \<open>The inner loop of \<^verbatim>\<open>_parse_metadata_videos_comp\<close>: the first item of the bucket with
  the identifier is updated; \<open>None\<close> when there is none (\<^verbatim>\<open>updated\<close> stays false).\<close>

fun update_existing :: "(video \<Rightarrow> video) \<Rightarrow> string \<Rightarrow> (ref \<Rightarrow> video) \<Rightarrow> ref list
    \<Rightarrow> (ref \<Rightarrow> video) option" where
  "update_existing upd i h [] = None"
| "update_existing upd i h (video # rest) =
     (if vid (h video) = i then Some (h(video := upd (h video)))
      else update_existing upd i h rest)"

text \<open>
  The outer loop of \<^verbatim>\<open>_parse_metadata_videos_comp\<close>. \<^verbatim>\<open>Video.new\<close> and \<^verbatim>\<open>Video.update\<close> belong to
  \<^verbatim>\<open>video.py\<close> and are the parameters \<open>video_new\<close> and \<open>video_update\<close>.
\<close>

fun merge_entries :: "(entry \<Rightarrow> video) \<Rightarrow> (entry \<Rightarrow> video \<Rightarrow> video) \<Rightarrow> category
    \<Rightarrow> entry list \<Rightarrow> channel \<Rightarrow> channel" where
  "merge_entries video_new video_update c [] ch = ch"
| "merge_entries video_new video_update c (e # es) ch =
     (if (case formats e of None \<Rightarrow> True | Some fs \<Rightarrow> length fs = 0)
      then merge_entries video_new video_update c es ch
      else
        (case update_existing (video_update e) (entry_id e) (heap ch) (bucket_of c ch) of
           Some h' \<Rightarrow> merge_entries video_new video_update c es (ch\<lparr>heap := h'\<rparr>)
         | None \<Rightarrow>
             (let video = next_ref ch;
                  ch1 = ch\<lparr>heap := (heap ch)(video := video_new e), next_ref := Suc video\<rparr>;
                  ch2 = set_bucket c (bucket_of c ch1 @ [video]) ch1;
                  ch3 = ch2\<lparr>reporter_added := reporter_added ch2 @ [video]\<rparr>
              in merge_entries video_new video_update c es ch3)))"

text \<open>
  Modelled from the spec: the order of \<^verbatim>\<open>Video\<close>, which \<^verbatim>\<open>bucket.sort(reverse=True)\<close> uses.
  Items compare by upload timestamp, newest first, and the sort is stable.
\<close>

definition sort_newest :: "(ref \<Rightarrow> video) \<Rightarrow> ref list \<Rightarrow> ref list" where
  "sort_newest h bucket = sort_key (\<lambda>video. - uploaded (h video)) bucket"

definition parse_metadata_videos_comp :: "(entry \<Rightarrow> video) \<Rightarrow> (entry \<Rightarrow> video \<Rightarrow> video)
    \<Rightarrow> entry list \<Rightarrow> category \<Rightarrow> channel \<Rightarrow> channel" where
  "parse_metadata_videos_comp video_new video_update i c ch =
     (let ch' = merge_entries video_new video_update c i ch
      in set_bucket c (sort_newest (heap ch') (bucket_of c ch')) ch')"

text \<open>\<^verbatim>\<open>_parse_metadata_videos\<close> runs the computation on a worker and returns when it is
  done; the progress display is not modelled.\<close>

definition parse_metadata_videos :: "(entry \<Rightarrow> video) \<Rightarrow> (entry \<Rightarrow> video \<Rightarrow> video)
    \<Rightarrow> entry list \<Rightarrow> category \<Rightarrow> channel \<Rightarrow> channel" where
  "parse_metadata_videos video_new video_update i c ch =
     parse_metadata_videos_comp video_new video_update i c ch"

text \<open>\<^verbatim>\<open>_report_deleted\<close>; \<open>now\<close> is the clock that \<^verbatim>\<open>video.deleted.update(None, True)\<close> reads.\<close>

fun report_deleted :: "nat \<Rightarrow> ref list \<Rightarrow> channel \<Rightarrow> channel" where
  "report_deleted now [] ch = ch"
| "report_deleted now (video # rest) ch =
     (if current (deleted (heap ch video)) = False \<and> \<not> known_not_deleted (heap ch video)
      then report_deleted now rest
             (ch\<lparr>reporter_deleted := reporter_deleted ch @ [video],
                 heap := (heap ch)(video := (heap ch video)
                           \<lparr>deleted := element_update now True (deleted (heap ch video))\<rparr>)\<rparr>)
      else report_deleted now rest ch)"

text \<open>The first part of \<^verbatim>\<open>_parse_metadata\<close>: \<^verbatim>\<open>res["entries"][0]\<close> raises on an empty list.\<close>

fun normalize_metadata :: "int option \<Rightarrow> metadata
    \<Rightarrow> (entry list \<times> entry list \<times> entry list) outcome" where
  "normalize_metadata em (Flat []) = Raised IndexError"
| "normalize_metadata em (Flat es) = Returned (es, [], [])"
| "normalize_metadata em (Nested []) = Raised IndexError"
| "normalize_metadata em (Nested gs) = normalize em gs ([], [], [])"

text \<open>The last three statements of \<^verbatim>\<open>_parse_metadata\<close>: the sweep over the three
  collections.\<close>

definition report_deleted_all :: "nat \<Rightarrow> channel \<Rightarrow> channel" where
  "report_deleted_all now ch =
     (let ch1 = report_deleted now (videos ch) ch;
          ch2 = report_deleted now (livestreams ch1) ch1
      in report_deleted now (shorts ch2) ch2)"

definition parse_metadata :: "int option \<Rightarrow> (entry \<Rightarrow> video) \<Rightarrow> (entry \<Rightarrow> video \<Rightarrow> video)
    \<Rightarrow> nat \<Rightarrow> metadata \<Rightarrow> channel \<Rightarrow> channel outcome" where
  "parse_metadata em video_new video_update now res ch =
     obind (normalize_metadata em res) (\<lambda>(vs, ls, ss).
       let ch1 = parse_metadata_videos video_new video_update vs Videos ch;
           ch2 = parse_metadata_videos video_new video_update ls Livestreams ch1;
           ch3 = parse_metadata_videos video_new video_update ss Shorts ch2
       in Returned (report_deleted_all now ch3))"

section \<open>Download\<close>

text \<open>
  What one call \<^verbatim>\<open>ydl.download(urls)\<close> of the external fetch engine does besides writing
  media files: it returns, raises \<^verbatim>\<open>DownloadError\<close> with a message, or raises another
  exception.
\<close>

datatype fetch_result = Fetched | Failed string | Crashed

text \<open>
  The state that a download changes: the archive, the identifiers that have a media file,
  the number of calls of the fetch engine, the seconds spent in \<^verbatim>\<open>time.sleep\<close> and the
  number of calls of \<^verbatim>\<open>_curate\<close>. The fetch engine is a parameter \<open>ydl\<close>: its answer to
  the call number \<open>n\<close> with a list of locators is the set of identifiers whose media
  files it wrote and the way the call ended. \<^verbatim>\<open>Video.url\<close> is the parameter \<open>url\<close>.
  \<^verbatim>\<open>_clean_parts\<close> removes partial files only, which are no media files, and is left out.
\<close>

record world =
  chan :: channel
  media :: "string set"
  calls :: nat
  slept :: nat
  curated :: nat

fun contains :: "string \<Rightarrow> string \<Rightarrow> bool" where
  "contains sub [] = (sub = [])"
| "contains sub (c # cs) = (take (length sub) (c # cs) = sub \<or> contains sub cs)"

definition private_or_removed :: "string \<Rightarrow> bool" where
  "private_or_removed msg =
     (contains ''Private video'' msg
      \<or> contains ''This video has been removed by the uploader'' msg)"

definition no_format :: "string \<Rightarrow> bool" where
  "no_format msg = contains '' bytes, expected '' msg"

text \<open>\<^verbatim>\<open>_skip_video\<close>: the list after the first undownloaded item, and that item; \<open>None\<close>
  when every item is downloaded, where the source raises an \<^verbatim>\<open>Exception\<close> (\<open>NothingToSkip\<close>
  below). The messages it prints are not modelled.\<close>

fun skip_video :: "string set \<Rightarrow> (ref \<Rightarrow> video) \<Rightarrow> ref list \<Rightarrow> (ref list \<times> ref) option" where
  "skip_video files h [] = None"
| "skip_video files h (video # rest) =
     (if \<not> downloaded files (h video) then Some (rest, video)
      else skip_video files h rest)"

lemma skip_video_shorter:
  "skip_video files h vs = Some (rest, video) \<Longrightarrow> length rest < length vs"
  by (induction vs) (auto split: if_splits)

text \<open>The statements after \<^verbatim>\<open>_skip_video\<close> in the branch for a private or removed item.\<close>

definition mark_deleted :: "nat \<Rightarrow> ref \<Rightarrow> channel \<Rightarrow> channel" where
  "mark_deleted now video ch =
     (if current (deleted (heap ch video)) = False
      then ch\<lparr>reporter_deleted := reporter_deleted ch @ [video],
              heap := (heap ch)(video := (heap ch video)
                        \<lparr>deleted := element_update now True (deleted (heap ch video))\<rparr>)\<rparr>
      else ch)"

text \<open>
  The loop \<^verbatim>\<open>while True\<close> of \<^verbatim>\<open>Channel.download\<close>. The result is the state it leaves and
  the exception that leaves it, \<open>None\<close> when it is left by \<^verbatim>\<open>break\<close>.
\<close>

function fetch_loop :: "(video \<Rightarrow> string) \<Rightarrow> (nat \<Rightarrow> string list \<Rightarrow> string set \<times> fetch_result)
    \<Rightarrow> nat \<Rightarrow> ref list \<Rightarrow> world \<Rightarrow> world \<times> error option" where
  "fetch_loop url ydl now not_downloaded w =
     (let urls = map (\<lambda>video. url (heap (chan w) video)) not_downloaded;
          w1 = w\<lparr>media := media w \<union> fst (ydl (calls w) urls), calls := Suc (calls w)\<rparr>
      in case snd (ydl (calls w) urls) of
           Fetched \<Rightarrow> (w1, None)
         | Crashed \<Rightarrow> (w1, Some OtherException)
         | Failed msg \<Rightarrow>
             if private_or_removed msg then
               (case skip_video (media w1) (heap (chan w1)) not_downloaded of
                  Some (rest, video) \<Rightarrow>
                    fetch_loop url ydl now rest (w1\<lparr>chan := mark_deleted now video (chan w1)\<rparr>)
                | None \<Rightarrow> (w1, Some NothingToSkip))
             else if no_format msg then
               (case skip_video (media w1) (heap (chan w1)) not_downloaded of
                  Some (rest, video) \<Rightarrow> fetch_loop url ydl now rest w1
                | None \<Rightarrow> (w1, Some NothingToSkip))
             else (w1, Some (DownloadError msg)))"
  by pat_completeness auto
termination
  by (relation "measure (\<lambda>(url, ydl, now, not_downloaded, w). length not_downloaded)")
    (auto dest: skip_video_shorter)

declare fetch_loop.simps [simp del]

text \<open>
  \<^verbatim>\<open>_err_dl\<close>: after the message, five seconds of sleep when retrying, else \<^verbatim>\<open>_err_msg\<close>
  and \<^verbatim>\<open>sys.exit(1)\<close>. The second component is \<open>None\<close> when the call returns and the
  exit status when it ends the process: 1, or the status of \<^verbatim>\<open>_err_msg\<close> when that helper
  ends the process itself.
\<close>

definition err_dl :: "int option \<Rightarrow> bool \<Rightarrow> world \<Rightarrow> world \<times> int option" where
  "err_dl em retrying w =
     (if retrying then (w\<lparr>slept := slept w + 5\<rparr>, None)
      else (w, Some (case err_msg em of Exited c \<Rightarrow> c | other \<Rightarrow> 1)))"

text \<open>
  The loop \<^verbatim>\<open>for i in range(5)\<close> of \<^verbatim>\<open>Channel.download\<close>, from the index \<open>i\<close> on. The
  result is the state at the end and \<open>None\<close> when the operation returns, or the exit
  status when it ends the process.
\<close>

function download_from :: "int option \<Rightarrow> (video \<Rightarrow> string)
    \<Rightarrow> (nat \<Rightarrow> string list \<Rightarrow> string set \<times> fetch_result)
    \<Rightarrow> nat \<Rightarrow> download_config \<Rightarrow> nat \<Rightarrow> world \<Rightarrow> world \<times> int option" where
  "download_from em url ydl now config i w =
     (if 5 \<le> i then (w, None)
      else
        (let not_downloaded = curate (media w) config (chan w);
             w0 = w\<lparr>curated := Suc (curated w)\<rparr>
         in if length not_downloaded = 0 then (w0, None)
            else
              (case fetch_loop url ydl now not_downloaded w0 of
                 (w1, None) \<Rightarrow> (w1, None)
               | (w1, Some exception) \<Rightarrow>
                   (case err_dl em (i \<noteq> 4) w1 of
                      (w2, None) \<Rightarrow> download_from em url ydl now config (Suc i) w2
                    | (w2, Some status) \<Rightarrow> (w2, Some status)))))"
  by pat_completeness auto
termination
  by (relation "measure (\<lambda>(em, url, ydl, now, config, i, w). 5 - i)") auto

declare download_from.simps [simp del]

definition download :: "int option \<Rightarrow> (video \<Rightarrow> string)
    \<Rightarrow> (nat \<Rightarrow> string list \<Rightarrow> string set \<times> fetch_result)
    \<Rightarrow> nat \<Rightarrow> download_config \<Rightarrow> world \<Rightarrow> world \<times> int option" where
  "download em url ydl now config w = download_from em url ydl now config 0 w"

section \<open>Sample data\<close>

text \<open>
  A small archive and a metadata document on which the theorems below are instantiated.
  \<open>sample_new\<close> and \<open>sample_update\<close> stand in for \<^verbatim>\<open>Video.new\<close> and \<^verbatim>\<open>Video.update\<close>: a
  new item takes the identifier and the upload date of its entry and starts undeleted,
  and both mark the item as seen in this pass.
\<close>

definition sample_video :: "string \<Rightarrow> int \<Rightarrow> bool \<Rightarrow> bool \<Rightarrow> video" where
  "sample_video i t gone seen =
     \<lparr>vid = i, uploaded = t,
      deleted = (if gone then Element (0, False) [(1, True)] else Element (0, False) []),
      known_not_deleted = seen\<rparr>"

definition sample_new :: "entry \<Rightarrow> video" where
  "sample_new e =
     \<lparr>vid = entry_id e,
      uploaded = (case map_of (other_keys e) ''upload_date'' of Some (JInt t) \<Rightarrow> t | other \<Rightarrow> 0),
      deleted = element_new 0 False,
      known_not_deleted = True\<rparr>"

definition sample_update :: "entry \<Rightarrow> video \<Rightarrow> video" where
  "sample_update e v = v\<lparr>known_not_deleted := True\<rparr>"

definition sample_entry :: "string \<Rightarrow> string list option \<Rightarrow> int \<Rightarrow> entry" where
  "sample_entry i fs t = \<lparr>entry_id = i, formats = fs, other_keys = [(''upload_date'', JInt t)]\<rparr>"

text \<open>Videos a (uploaded 5) and b (uploaded 3), a livestream c that is known to be
  deleted; none of them seen in this pass.\<close>

definition sample_channel :: channel where
  "sample_channel =
     \<lparr>heap = (\<lambda>r. sample_video ''a'' 5 False False)
               (1 := sample_video ''b'' 3 False False, 2 := sample_video ''c'' 4 True False),
      next_ref = 3, videos = [0, 1], livestreams = [2], shorts = [],
      reporter_added = [], reporter_deleted = []\<rparr>"

text \<open>A nested document: the group of videos has a again, an upcoming u without
  formats and a new n (uploaded 9); a second group carries a token that is none of the
  three known ones.\<close>

definition sample_metadata :: metadata where
  "sample_metadata =
     Nested
       [\<lparr>title = ''Chan - Videos'',
         entries = [sample_entry ''a'' (Some [''22'']) 5, sample_entry ''u'' None 8,
                    sample_entry ''n'' (Some [''22'']) 9]\<rparr>,
        \<lparr>title = ''Chan - Podcasts'', entries = [sample_entry ''p'' (Some [''22'']) 6]\<rparr>]"

text \<open>The sample archive with b marked as seen, as a refresh that observes b leaves
  it.\<close>

definition seen_channel :: channel where
  "seen_channel =
     sample_channel\<lparr>heap := (heap sample_channel)(1 := sample_video ''b'' 3 False True)\<rparr>"

text \<open>Two flat documents for two refreshes in a row: the first lists a and b, the
  second only a.\<close>

definition seen_metadata :: metadata where
  "seen_metadata =
     Flat [sample_entry ''a'' (Some [''22'']) 5, sample_entry ''b'' (Some [''22'']) 3]"

definition later_metadata :: metadata where
  "later_metadata = Flat [sample_entry ''a'' (Some [''22'']) 5]"

text \<open>The locator of an item, in place of \<^verbatim>\<open>Video.url\<close>.\<close>

definition sample_url :: "video \<Rightarrow> string" where
  "sample_url v = ''https://www.youtube.com/watch?v='' @ vid v"

text \<open>No media files yet, nothing fetched, slept or curated.\<close>

definition sample_world :: world where
  "sample_world = \<lparr>chan = sample_channel, media = {}, calls = 0, slept = 0, curated = 0\<rparr>"

definition no_limits :: download_config where
  "no_limits = \<lparr>max_videos = None, max_livestreams = None, max_shorts = None\<rparr>"

text \<open>A fetch engine that writes a and then fails on b, removed by its uploader; that
  fails on c, a private video, at the next call; and that succeeds from then on.\<close>

definition removed_ydl :: "nat \<Rightarrow> string list \<Rightarrow> string set \<times> fetch_result" where
  "removed_ydl n urls =
     (if n = 0 then ({''a''}, Failed ''ERROR: [youtube] b: This video has been removed by the uploader'')
      else if n = 1 then ({}, Failed ''ERROR: [youtube] c: Private video. Sign in'')
      else ({}, Fetched))"

text \<open>A fetch engine that fails once with a size mismatch and then succeeds.\<close>

definition short_ydl :: "nat \<Rightarrow> string list \<Rightarrow> string set \<times> fetch_result" where
  "short_ydl n urls =
     (if n = 0 then ({}, Failed ''ERROR: Downloaded 5 bytes, expected 9 bytes'')
      else (set (map (drop 32) urls), Fetched))"

text \<open>A fetch engine that always fails with a timeout.\<close>

definition failing_ydl :: "nat \<Rightarrow> string list \<Rightarrow> string set \<times> fetch_result" where
  "failing_ydl n urls = ({}, Failed ''<urlopen error timed out>'')"

section \<open>Properties of the schema migration\<close>

lemma add_deleted_each_records:
  "\<forall>v \<in> set vs. \<exists>r. v = JObj r \<Longrightarrow>
   add_deleted_each None clock k vs =
     Returned (map (\<lambda>(j, v). case v of
         JObj r \<Rightarrow> JObj (AList.update ''deleted'' (element_to_dict (element_new (clock j) False)) r)
       | other \<Rightarrow> other) (enumerate k vs))"
  by (induction vs arbitrary: k) (auto simp add: new_deleted_def)

lemma add_deleted_each_raises:
  "vs \<noteq> [] \<Longrightarrow> add_deleted_each (Some e) clock k vs = Raised e"
  by (cases vs) (simp_all add: new_deleted_def)

lemma add_deleted_records:
  "map_of encoded coll = Some (JList vs) \<Longrightarrow> \<forall>v \<in> set vs. \<exists>r. v = JObj r \<Longrightarrow>
   add_deleted None clock k coll encoded =
     Returned (AList.update coll
       (JList (map (\<lambda>(j, v). case v of
           JObj r \<Rightarrow> JObj (AList.update ''deleted'' (element_to_dict (element_new (clock j) False)) r)
         | other \<Rightarrow> other) (enumerate k vs)))
       encoded, k + length vs)"
  by (simp add: add_deleted_def get_item_def add_deleted_each_records)

lemma add_deleted_no_records:
  "map_of encoded coll = Some (JList []) \<Longrightarrow>
   add_deleted ne clock k coll encoded = Returned (AList.update coll (JList []) encoded, k)"
  by (simp add: add_deleted_def get_item_def)

lemma add_deleted_raises:
  "map_of encoded coll = Some (JList vs) \<Longrightarrow> vs \<noteq> [] \<Longrightarrow>
   add_deleted (Some e) clock k coll encoded = Raised e"
  by (simp add: add_deleted_def get_item_def add_deleted_each_raises)

lemma migrate_step_reached:
  "migrate_step em ne clock e e encoded = Returned encoded"
  by (simp add: migrate_step.simps)

lemma migrate_step_unknown:
  "cur \<noteq> e \<Longrightarrow> cur \<noteq> 1 \<Longrightarrow> cur \<noteq> 2 \<Longrightarrow>
   migrate_step em ne clock e cur encoded = Exited (case em of None \<Rightarrow> 1 | Some c \<Rightarrow> c)"
  by (simp add: migrate_step.simps err_msg_def split: option.splits)

lemma migrate_chain:
  "migrate_archive em ne clock 1 3 encoded =
     obind (migrate_1_to_2 encoded) (\<lambda>d1.
     obind (migrate_2_to_3 ne clock (AList.update ''version'' (JInt 2) d1)) (\<lambda>d2.
     Returned (AList.update ''version'' (JInt 3) d2)))"
  by (simp add: migrate_archive_def migrate_step.simps [of _ _ _ 3 1]
      migrate_step.simps [of _ _ _ 3 2] migrate_step.simps [of _ _ _ 3 3] split: outcome.splits)

lemma obind_Returned:
  "obind m f = Returned y \<longleftrightarrow> (\<exists>x. m = Returned x \<and> f x = Returned y)"
  by (cases m) auto

lemma migrate_chain_version:
  assumes "migrate_archive em ne clock 1 3 encoded = Returned encoded'"
  shows "map_of encoded' ''version'' = Some (JInt 3)"
proof -
  from assms obtain d2 where "encoded' = AList.update ''version'' (JInt 3) d2"
    unfolding migrate_chain by (auto simp add: obind_Returned)
  then show ?thesis by (simp add: update_conv')
qed

lemma load_document_current:
  "map_of encoded ''version'' = Some (JInt ARCHIVE_COMPAT) \<Longrightarrow>
   load_document em ne clock encoded = Returned encoded"
  by (simp add: load_document_def get_item_def)

text \<open>
  Claim C7. A stored version that is neither the current version nor 1 or 2 (below the
  oldest known version or above the current one) is fatal: the migration ends the
  process and returns no document, and so does loading a document with such a version.
  The exit status is 1, or the one of \<^verbatim>\<open>_err_msg\<close> if that helper ends the process itself.
\<close>

theorem unknown_version_is_fatal:
  assumes "cur \<noteq> 1" and "cur \<noteq> 2" and "cur \<noteq> ARCHIVE_COMPAT"
  shows "migrate_archive em ne clock cur ARCHIVE_COMPAT encoded
           = Exited (case em of None \<Rightarrow> 1 | Some c \<Rightarrow> c)
       \<and> (map_of encoded ''version'' = Some (JInt cur) \<longrightarrow>
            load_document em ne clock encoded = Exited (case em of None \<Rightarrow> 1 | Some c \<Rightarrow> c))"
proof -
  have m: "migrate_archive em ne clock cur ARCHIVE_COMPAT encoded
           = Exited (case em of None \<Rightarrow> 1 | Some c \<Rightarrow> c)"
    unfolding migrate_archive_def using assms by (intro migrate_step_unknown) simp_all
  then show ?thesis using assms(3)
    by (simp add: load_document_def get_item_def)
qed

text \<open>Versions 7 and 0, with a helper that only prints.\<close>

theorem unknown_version_is_fatal_witness:
  "migrate_archive None None (\<lambda>k. k) 7 ARCHIVE_COMPAT [(''version'', JInt 7), (''url'', JStr ''u'')]
     = Exited 1
   \<and> load_document None None (\<lambda>k. k) [(''version'', JInt 7), (''url'', JStr ''u'')] = Exited 1
   \<and> load_document None None (\<lambda>k. k) [(''version'', JInt 0), (''id'', JStr ''c'')] = Exited 1"
  using unknown_version_is_fatal [of 7 None None "\<lambda>k. k" "[(''version'', JInt 7), (''url'', JStr ''u'')]"]
    unknown_version_is_fatal [of 0 None None "\<lambda>k. k" "[(''version'', JInt 0), (''id'', JStr ''c'')]"]
  by (simp add: ARCHIVE_COMPAT_def)

text \<open>
  Claim C8. At the current version the migration step returns the document unchanged;
  the output of a migration from version 1 carries the current version, so loading it
  again migrates nothing; and loading calls the migration only when the stored version
  differs from the expected one.
\<close>

theorem migrate_current_is_noop:
  "migrate_archive em ne clock ARCHIVE_COMPAT ARCHIVE_COMPAT encoded = Returned encoded
   \<and> (migrate_archive em ne clock 1 ARCHIVE_COMPAT encoded = Returned encoded' \<longrightarrow>
        map_of encoded' ''version'' = Some (JInt ARCHIVE_COMPAT)
        \<and> load_document em ne clock encoded' = Returned encoded')
   \<and> (map_of encoded ''version'' = Some (JInt ARCHIVE_COMPAT) \<longrightarrow>
        load_document em ne clock encoded = Returned encoded)
   \<and> (map_of encoded ''version'' = Some (JInt v) \<and> v \<noteq> ARCHIVE_COMPAT \<longrightarrow>
        load_document em ne clock encoded = migrate_archive em ne clock v ARCHIVE_COMPAT encoded)"
proof (intro conjI impI)
  show "migrate_archive em ne clock ARCHIVE_COMPAT ARCHIVE_COMPAT encoded = Returned encoded"
    by (simp add: migrate_archive_def migrate_step_reached)
next
  assume a: "migrate_archive em ne clock 1 ARCHIVE_COMPAT encoded = Returned encoded'"
  then show v: "map_of encoded' ''version'' = Some (JInt ARCHIVE_COMPAT)"
    unfolding ARCHIVE_COMPAT_def by (rule migrate_chain_version)
  then show "load_document em ne clock encoded' = Returned encoded'"
    by (rule load_document_current)
next
  assume "map_of encoded ''version'' = Some (JInt ARCHIVE_COMPAT)"
  then show "load_document em ne clock encoded = Returned encoded"
    by (rule load_document_current)
next
  assume "map_of encoded ''version'' = Some (JInt v) \<and> v \<noteq> ARCHIVE_COMPAT"
  then show "load_document em ne clock encoded = migrate_archive em ne clock v ARCHIVE_COMPAT encoded"
    by (simp add: load_document_def get_item_def)
qed

text \<open>A version-1 document with one record, migrated with a helper \<^verbatim>\<open>_new_empty\<close> that
  returns and loaded again; and a version-1 document without records, migrated with a
  helper that raises and loaded again.\<close>

theorem migrate_current_is_noop_witness:
  "migrate_archive None None (\<lambda>k. 0) 1 ARCHIVE_COMPAT
     [(''version'', JInt 1), (''id'', JStr ''UC1''),
      (''videos'', JList [JObj [(''id'', JStr ''a'')]])]
   = Returned
     [(''version'', JInt 3),
      (''videos'', JList [JObj [(''id'', JStr ''a''),
         (''deleted'', JObj [(''history'', JList [JList [JInt 0, JBool False]])])]]),
      (''url'', JStr ''https://www.youtube.com/channel/UC1''),
      (''livestreams'', JList []), (''shorts'', JList [])]
   \<and> load_document None None (\<lambda>k. 0)
     [(''version'', JInt 3),
      (''videos'', JList [JObj [(''id'', JStr ''a''),
         (''deleted'', JObj [(''history'', JList [JList [JInt 0, JBool False]])])]]),
      (''url'', JStr ''https://www.youtube.com/channel/UC1''),
      (''livestreams'', JList []), (''shorts'', JList [])]
   = Returned
     [(''version'', JInt 3),
      (''videos'', JList [JObj [(''id'', JStr ''a''),
         (''deleted'', JObj [(''history'', JList [JList [JInt 0, JBool False]])])]]),
      (''url'', JStr ''https://www.youtube.com/channel/UC1''),
      (''livestreams'', JList []), (''shorts'', JList [])]
   \<and> migrate_archive None (Some (NameError ''Channel'')) (\<lambda>k. 0) 1 ARCHIVE_COMPAT
     [(''version'', JInt 1), (''id'', JStr ''UC1''), (''videos'', JList [])]
   = Returned
     [(''version'', JInt 3), (''videos'', JList []),
      (''url'', JStr ''https://www.youtube.com/channel/UC1''),
      (''livestreams'', JList []), (''shorts'', JList [])]
   \<and> load_document None (Some (NameError ''Channel'')) (\<lambda>k. 0)
     [(''version'', JInt 3), (''videos'', JList []),
      (''url'', JStr ''https://www.youtube.com/channel/UC1''),
      (''livestreams'', JList []), (''shorts'', JList [])]
   = Returned
     [(''version'', JInt 3), (''videos'', JList []),
      (''url'', JStr ''https://www.youtube.com/channel/UC1''),
      (''livestreams'', JList []), (''shorts'', JList [])]"
proof -
  let ?d = "JObj [(''history'', JList [JList [JInt 0, JBool False]])]"
  let ?v1 = "[(''version'', JInt 1), (''id'', JStr ''UC1''),
      (''videos'', JList [JObj [(''id'', JStr ''a'')]])]"
  let ?v3 = "[(''version'', JInt 3),
      (''videos'', JList [JObj [(''id'', JStr ''a''), (''deleted'', ?d)]]),
      (''url'', JStr ''https://www.youtube.com/channel/UC1''),
      (''livestreams'', JList []), (''shorts'', JList [])]"
  let ?w1 = "[(''version'', JInt 1), (''id'', JStr ''UC1''), (''videos'', JList [])]"
  let ?w3 = "[(''version'', JInt 3), (''videos'', JList []),
      (''url'', JStr ''https://www.youtube.com/channel/UC1''),
      (''livestreams'', JList []), (''shorts'', JList [])]"
  let ?ne = "Some (NameError ''Channel'')"
  have run: "migrate_archive None None (\<lambda>k. 0) 1 ARCHIVE_COMPAT ?v1 = Returned ?v3"
    by (simp add: ARCHIVE_COMPAT_def migrate_chain migrate_1_to_2_def migrate_2_to_3_def
        add_deleted_def get_item_def channel_prefix_def new_deleted_def element_to_dict_def
        element_new_def)
  have run': "migrate_archive None ?ne (\<lambda>k. 0) 1 ARCHIVE_COMPAT ?w1 = Returned ?w3"
    by (simp add: ARCHIVE_COMPAT_def migrate_chain migrate_1_to_2_def migrate_2_to_3_def
        add_deleted_def get_item_def channel_prefix_def)
  from migrate_current_is_noop [of None None "\<lambda>k. 0" ?v1 ?v3 3]
  have "migrate_archive None None (\<lambda>k. 0) 1 ARCHIVE_COMPAT ?v1 = Returned ?v3 \<longrightarrow>
        load_document None None (\<lambda>k. 0) ?v3 = Returned ?v3"
    by blast
  moreover from migrate_current_is_noop [of None ?ne "\<lambda>k. 0" ?w1 ?w3 3]
  have "migrate_archive None ?ne (\<lambda>k. 0) 1 ARCHIVE_COMPAT ?w1 = Returned ?w3 \<longrightarrow>
        load_document None ?ne (\<lambda>k. 0) ?w3 = Returned ?w3"
    by blast
  ultimately show ?thesis using run run'
    by blast
qed

lemma migrate_1_to_2_ok:
  "map_of encoded ''id'' = Some (JStr i) \<Longrightarrow>
   migrate_1_to_2 encoded =
     Returned (AList.update ''shorts'' (JList [])
       (AList.update ''livestreams'' (JList [])
         (AList.delete ''id''
           (AList.update ''url'' (JStr (channel_prefix @ i)) encoded))))"
  by (simp add: migrate_1_to_2_def get_item_def)

text \<open>
  A version-1 document (an \<^verbatim>\<open>id\<close> string and a list of records under \<^verbatim>\<open>videos\<close>) is
  migrated to version 3 by exactly the two steps, from 1 to 2 and from 2 to 3. When
  \<^verbatim>\<open>Video._new_empty\<close> returns, or when there is no record, the result is the old document
  with the key \<^verbatim>\<open>id\<close> gone, \<^verbatim>\<open>url\<close> the channel prefix followed by the old id, \<^verbatim>\<open>livestreams\<close>
  and \<^verbatim>\<open>shorts\<close> empty lists, every record under \<^verbatim>\<open>videos\<close> extended by a deletion history
  that holds the one snapshot \<^verbatim>\<open>False\<close> taken at the record's call, \<^verbatim>\<open>version\<close> 3, and every
  other key with its value. When \<^verbatim>\<open>Video._new_empty\<close> raises and there is a record, the
  migration raises that exception at the first record and returns no document.
\<close>

lemma migrate_v1_by_cases:
  assumes ident: "map_of encoded ''id'' = Some (JStr i)"
    and vids: "map_of encoded ''videos'' = Some (JList vs)"
    and recs: "\<forall>v \<in> set vs. \<exists>r. v = JObj r"
  shows "migrate_archive em ne clock 1 ARCHIVE_COMPAT encoded =
           obind (migrate_1_to_2 encoded) (\<lambda>d1.
           obind (migrate_2_to_3 ne clock (AList.update ''version'' (JInt 2) d1)) (\<lambda>d2.
           Returned (AList.update ''version'' (JInt 3) d2)))"
    and "ne = None \<or> vs = [] \<Longrightarrow>
         \<exists>encoded'. migrate_archive em ne clock 1 ARCHIVE_COMPAT encoded = Returned encoded'
           \<and> map_of encoded' =
               (map_of encoded)
                 (''id'' := None,
                  ''url'' \<mapsto> JStr (channel_prefix @ i),
                  ''livestreams'' \<mapsto> JList [],
                  ''shorts'' \<mapsto> JList [],
                  ''videos'' \<mapsto> JList (map (\<lambda>(j, v). case v of
                       JObj r \<Rightarrow> JObj (AList.update ''deleted''
                                  (JObj [(''history'', JList [JList [JInt (int (clock j)), JBool False]])])
                                  r)
                     | other \<Rightarrow> other) (enumerate 0 vs)),
                  ''version'' \<mapsto> JInt ARCHIVE_COMPAT)"
    and "ne = Some e \<Longrightarrow> vs \<noteq> [] \<Longrightarrow>
         migrate_archive em ne clock 1 ARCHIVE_COMPAT encoded = Raised e"
proof -
  let ?add = "\<lambda>(j, v). case v of
         JObj r \<Rightarrow> JObj (AList.update ''deleted'' (element_to_dict (element_new (clock j) False)) r)
       | other \<Rightarrow> other"
  let ?d1 = "AList.update ''shorts'' (JList [])
       (AList.update ''livestreams'' (JList [])
         (AList.delete ''id''
           (AList.update ''url'' (JStr (channel_prefix @ i)) encoded)))"
  let ?d1v = "AList.update ''version'' (JInt 2) ?d1"
  let ?e1 = "AList.update ''videos'' (JList (map ?add (enumerate 0 vs))) ?d1v"
  let ?e2 = "AList.update ''livestreams'' (JList []) ?e1"
  let ?e3 = "AList.update ''shorts'' (JList []) ?e2"
  show chain: "migrate_archive em ne clock 1 ARCHIVE_COMPAT encoded =
           obind (migrate_1_to_2 encoded) (\<lambda>d1.
           obind (migrate_2_to_3 ne clock (AList.update ''version'' (JInt 2) d1)) (\<lambda>d2.
           Returned (AList.update ''version'' (JInt 3) d2)))"
    unfolding ARCHIVE_COMPAT_def by (rule migrate_chain)
  have s1: "migrate_1_to_2 encoded = Returned ?d1"
    using ident by (rule migrate_1_to_2_ok)
  have v1: "map_of ?d1v ''videos'' = Some (JList vs)"
    using vids by (simp add: update_conv' delete_conv')
  {
    assume "ne = None \<or> vs = []"
    then have a1: "add_deleted ne clock 0 ''videos'' ?d1v = Returned (?e1, length vs)"
    proof
      assume "ne = None"
      then show ?thesis
        using add_deleted_records [OF v1 recs, of clock 0] by simp
    next
      assume "vs = []"
      then show ?thesis
        using add_deleted_no_records [of ?d1v "''videos''" ne clock 0] v1 by simp
    qed
    have l1: "map_of ?e1 ''livestreams'' = Some (JList [])"
      by (simp add: update_conv' delete_conv')
    have a2: "add_deleted ne clock (length vs) ''livestreams'' ?e1 = Returned (?e2, length vs)"
      using l1 by (rule add_deleted_no_records)
    have h1: "map_of ?e2 ''shorts'' = Some (JList [])"
      by (simp add: update_conv' delete_conv')
    have a3: "add_deleted ne clock (length vs) ''shorts'' ?e2 = Returned (?e3, length vs)"
      using h1 by (rule add_deleted_no_records)
    have s2: "migrate_2_to_3 ne clock ?d1v = Returned ?e3"
      by (simp add: migrate_2_to_3_def a1 a2 a3)
    have res: "migrate_archive em ne clock 1 ARCHIVE_COMPAT encoded =
        Returned (AList.update ''version'' (JInt 3) ?e3)"
      by (simp add: chain s1 s2)
    have m: "map_of (AList.update ''version'' (JInt 3) ?e3) =
               (map_of encoded)
                 (''id'' := None,
                  ''url'' \<mapsto> JStr (channel_prefix @ i),
                  ''livestreams'' \<mapsto> JList [],
                  ''shorts'' \<mapsto> JList [],
                  ''videos'' \<mapsto> JList (map (\<lambda>(j, v). case v of
                       JObj r \<Rightarrow> JObj (AList.update ''deleted''
                                  (JObj [(''history'', JList [JList [JInt (int (clock j)), JBool False]])])
                                  r)
                     | other \<Rightarrow> other) (enumerate 0 vs)),
                  ''version'' \<mapsto> JInt ARCHIVE_COMPAT)"
      by (auto simp add: update_conv' delete_conv' fun_eq_iff ARCHIVE_COMPAT_def
          element_to_dict_def element_new_def)
    from res m
    show "\<exists>encoded'. migrate_archive em ne clock 1 ARCHIVE_COMPAT encoded = Returned encoded'
           \<and> map_of encoded' =
               (map_of encoded)
                 (''id'' := None,
                  ''url'' \<mapsto> JStr (channel_prefix @ i),
                  ''livestreams'' \<mapsto> JList [],
                  ''shorts'' \<mapsto> JList [],
                  ''videos'' \<mapsto> JList (map (\<lambda>(j, v). case v of
                       JObj r \<Rightarrow> JObj (AList.update ''deleted''
                                  (JObj [(''history'', JList [JList [JInt (int (clock j)), JBool False]])])
                                  r)
                     | other \<Rightarrow> other) (enumerate 0 vs)),
                  ''version'' \<mapsto> JInt ARCHIVE_COMPAT)"
      by blast
  }
  {
    assume "ne = Some e" and "vs \<noteq> []"
    then have "add_deleted ne clock 0 ''videos'' ?d1v = Raised e"
      using add_deleted_raises [OF v1, of e clock 0] by simp
    then have "migrate_2_to_3 ne clock ?d1v = Raised e"
      by (simp add: migrate_2_to_3_def)
    then show "migrate_archive em ne clock 1 ARCHIVE_COMPAT encoded = Raised e"
      by (simp add: chain s1)
  }
qed

text \<open>
  Claim C5 says that the migration of every version-1 document adds a deletion history
  with a false default to every record. The step from version 2 to version 3 calls
  \<^verbatim>\<open>Video._new_empty\<close> once for every record, before it assigns anything. With a helper
  that raises, a version-1 document with two records is not migrated: the exception
  leaves the loop at the first record, and loading the archive raises it too. With a
  helper that returns, the same document is migrated as the claim says, and so is a
  document without records with either helper.
\<close>

theorem migration_raises_at_first_record:
  "migrate_archive em (Some e) clock 1 ARCHIVE_COMPAT
       [(''version'', JInt 1), (''id'', JStr ''UC1''), (''name'', JStr ''n''),
        (''videos'', JList [JObj [(''id'', JStr ''a'')], JObj [(''id'', JStr ''b'')]])]
     = Raised e
   \<and> load_document em (Some e) clock
       [(''version'', JInt 1), (''id'', JStr ''UC1''), (''name'', JStr ''n''),
        (''videos'', JList [JObj [(''id'', JStr ''a'')], JObj [(''id'', JStr ''b'')]])]
     = Raised e
   \<and> migrate_archive em None clock 1 ARCHIVE_COMPAT
       [(''version'', JInt 1), (''id'', JStr ''UC1''), (''name'', JStr ''n''),
        (''videos'', JList [JObj [(''id'', JStr ''a'')], JObj [(''id'', JStr ''b'')]])]
     = Returned
       [(''version'', JInt 3), (''name'', JStr ''n''),
        (''videos'', JList
          [JObj [(''id'', JStr ''a''),
                 (''deleted'', JObj [(''history'', JList [JList [JInt (int (clock 0)), JBool False]])])],
           JObj [(''id'', JStr ''b''),
                 (''deleted'', JObj [(''history'', JList [JList [JInt (int (clock 1)), JBool False]])])]]),
        (''url'', JStr ''https://www.youtube.com/channel/UC1''),
        (''livestreams'', JList []), (''shorts'', JList [])]
   \<and> migrate_archive em (Some e) clock 1 ARCHIVE_COMPAT
       [(''version'', JInt 1), (''id'', JStr ''UC1''), (''name'', JStr ''n''), (''videos'', JList [])]
     = Returned
       [(''version'', JInt 3), (''name'', JStr ''n''), (''videos'', JList []),
        (''url'', JStr ''https://www.youtube.com/channel/UC1''),
        (''livestreams'', JList []), (''shorts'', JList [])]"
proof -
  let ?doc = "[(''version'', JInt 1), (''id'', JStr ''UC1''), (''name'', JStr ''n''),
        (''videos'', JList [JObj [(''id'', JStr ''a'')], JObj [(''id'', JStr ''b'')]])]"
  have m: "migrate_archive em (Some e) clock 1 ARCHIVE_COMPAT ?doc = Raised e"
    by (simp add: ARCHIVE_COMPAT_def migrate_chain migrate_1_to_2_def migrate_2_to_3_def
        add_deleted_def get_item_def new_deleted_def)
  have l: "load_document em (Some e) clock ?doc
      = migrate_archive em (Some e) clock 1 ARCHIVE_COMPAT ?doc"
    by (simp add: load_document_def get_item_def ARCHIVE_COMPAT_def)
  have r: "migrate_archive em None clock 1 ARCHIVE_COMPAT ?doc
     = Returned
       [(''version'', JInt 3), (''name'', JStr ''n''),
        (''videos'', JList
          [JObj [(''id'', JStr ''a''),
                 (''deleted'', JObj [(''history'', JList [JList [JInt (int (clock 0)), JBool False]])])],
           JObj [(''id'', JStr ''b''),
                 (''deleted'', JObj [(''history'', JList [JList [JInt (int (clock 1)), JBool False]])])]]),
        (''url'', JStr ''https://www.youtube.com/channel/UC1''),
        (''livestreams'', JList []), (''shorts'', JList [])]"
    by (simp add: ARCHIVE_COMPAT_def migrate_chain migrate_1_to_2_def migrate_2_to_3_def
        add_deleted_def get_item_def channel_prefix_def new_deleted_def element_to_dict_def
        element_new_def)
  have z: "migrate_archive em (Some e) clock 1 ARCHIVE_COMPAT
       [(''version'', JInt 1), (''id'', JStr ''UC1''), (''name'', JStr ''n''), (''videos'', JList [])]
     = Returned
       [(''version'', JInt 3), (''name'', JStr ''n''), (''videos'', JList []),
        (''url'', JStr ''https://www.youtube.com/channel/UC1''),
        (''livestreams'', JList []), (''shorts'', JList [])]"
    by (simp add: ARCHIVE_COMPAT_def migrate_chain migrate_1_to_2_def migrate_2_to_3_def
        add_deleted_def get_item_def channel_prefix_def)
  from m l r z show ?thesis by simp
qed

section \<open>Properties of search and curation\<close>

lemma search_from_no_match:
  "\<forall>video \<in> set vs. vid (h video) \<noteq> i \<Longrightarrow> search_from h vs i = Raised (VideoNotFoundException i)"
  by (induction vs) auto

lemma search_from_first_match:
  "\<forall>video \<in> set before. vid (h video) \<noteq> i \<Longrightarrow> vid (h r) = i \<Longrightarrow>
   search_from h (before @ r # rest) i = Returned r"
  by (induction before) auto

text \<open>
  Claim C10. \<^verbatim>\<open>search\<close> scans the collection of ordinary videos only. When no item of
  that collection has the identifier, it raises \<^verbatim>\<open>VideoNotFoundException\<close>, whatever the
  livestreams and the shorts hold, so also for an identifier of one of their items;
  otherwise it returns the first item of the collection with the identifier.
\<close>

theorem search_scans_videos_only:
  "((\<forall>video \<in> set (videos ch). vid (heap ch video) \<noteq> i) \<longrightarrow>
      search ch i = Raised (VideoNotFoundException i))
   \<and> (videos ch = before @ r # rest \<and> (\<forall>video \<in> set before. vid (heap ch video) \<noteq> i)
        \<and> vid (heap ch r) = i \<longrightarrow> search ch i = Returned r)"
  by (simp add: search_def search_from_no_match search_from_first_match)

text \<open>An archive with the items a, aa in videos, aaa in livestreams and aaaa in shorts.\<close>

theorem search_scans_videos_only_witness:
  "search \<lparr>heap = (\<lambda>r. \<lparr>vid = replicate (Suc r) CHR ''a'', uploaded = 0,
                           deleted = element_new 0 False, known_not_deleted = True\<rparr>),
            next_ref = 4, videos = [0, 1], livestreams = [2], shorts = [3],
            reporter_added = [], reporter_deleted = []\<rparr> ''aaa''
     = Raised (VideoNotFoundException ''aaa'')
   \<and> search \<lparr>heap = (\<lambda>r. \<lparr>vid = replicate (Suc r) CHR ''a'', uploaded = 0,
                           deleted = element_new 0 False, known_not_deleted = True\<rparr>),
            next_ref = 4, videos = [0, 1], livestreams = [2], shorts = [3],
            reporter_added = [], reporter_deleted = []\<rparr> ''aaaa''
     = Raised (VideoNotFoundException ''aaaa'')
   \<and> search \<lparr>heap = (\<lambda>r. \<lparr>vid = replicate (Suc r) CHR ''a'', uploaded = 0,
                           deleted = element_new 0 False, known_not_deleted = True\<rparr>),
            next_ref = 4, videos = [0, 1], livestreams = [2], shorts = [3],
            reporter_added = [], reporter_deleted = []\<rparr> ''aa''
     = Returned 1"
proof -
  let ?ch = "\<lparr>heap = (\<lambda>r. \<lparr>vid = replicate (Suc r) CHR ''a'', uploaded = 0,
                           deleted = element_new 0 False, known_not_deleted = True\<rparr>),
            next_ref = 4, videos = [0, 1], livestreams = [2], shorts = [3],
            reporter_added = [], reporter_deleted = []\<rparr>"
  have a: "search ?ch ''aaa'' = Raised (VideoNotFoundException ''aaa'')"
    using search_scans_videos_only [of ?ch "''aaa''"] by simp
  have b: "search ?ch ''aaaa'' = Raised (VideoNotFoundException ''aaaa'')"
    using search_scans_videos_only [of ?ch "''aaaa''"] by simp
  have c: "search ?ch ''aa'' = Returned 1"
    using search_scans_videos_only [of ?ch "''aa''" "[0]" 1 "[]"] by simp
  from a b c show ?thesis by blast
qed

lemma map_nth_take:
  "n \<le> length xs \<Longrightarrow> map (\<lambda>ind. xs ! ind) [0 ..< n] = take n xs"
  by (simp add: list_eq_iff_nth_eq)

text \<open>With a maximum \<open>m\<close>, the candidates of a category are the first
  \<open>min (length - 1) m\<close> items, not the first \<open>min length m\<close>.\<close>

lemma curate_list_prefix:
  "curate_list files h vs (Some m) =
     filter (\<lambda>video. \<not> downloaded files (h video)) (take (nat (min (int (length vs) - 1) m)) vs)"
proof -
  have "nat (min (max (int (length vs) - 1) 0) m) \<le> length vs"
    by auto
  then have "map (\<lambda>ind. vs ! ind) [0 ..< nat (min (max (int (length vs) - 1) 0) m)]
      = take (nat (min (max (int (length vs) - 1) 0) m)) vs"
    by (rule map_nth_take)
  moreover have "nat (min (max (int (length vs) - 1) 0) m) = nat (min (int (length vs) - 1) m)"
    by auto
  ultimately show ?thesis
    by (simp add: curate_list_def)
qed

text \<open>
  Claim C1 says that a maximum \<open>N\<close> restricts the candidates of a category to its first
  \<open>N\<close> items, or to the whole collection when \<open>N\<close> exceeds its length. The code takes
  one item less whenever \<open>N\<close> is at least the length: a single undownloaded video with
  a maximum of 1 is not curated, and of three undownloaded videos with a maximum of 5
  only the first two are.
\<close>

theorem curate_reserves_one_slot:
  "curate {} \<lparr>max_videos = Some 1, max_livestreams = Some 0, max_shorts = Some 0\<rparr>
     \<lparr>heap = (\<lambda>r. \<lparr>vid = replicate (Suc r) CHR ''a'', uploaded = 0,
                    deleted = element_new 0 False, known_not_deleted = True\<rparr>),
      next_ref = 1, videos = [0], livestreams = [], shorts = [],
      reporter_added = [], reporter_deleted = []\<rparr> = []
   \<and> curate {} \<lparr>max_videos = Some 5, max_livestreams = Some 0, max_shorts = Some 0\<rparr>
     \<lparr>heap = (\<lambda>r. \<lparr>vid = replicate (Suc r) CHR ''a'', uploaded = 0,
                    deleted = element_new 0 False, known_not_deleted = True\<rparr>),
      next_ref = 3, videos = [0, 1, 2], livestreams = [], shorts = [],
      reporter_added = [], reporter_deleted = []\<rparr> = [0, 1]"
  by (simp add: curate_def curate_list_prefix downloaded_def)

text \<open>The two examples of the claim hold: a maximum of 2 of three gives the first two,
  a maximum of 0 gives none.\<close>

lemma curate_list_examples:
  "curate_list {} (\<lambda>r. \<lparr>vid = replicate (Suc r) CHR ''a'', uploaded = 0,
                    deleted = element_new 0 False, known_not_deleted = True\<rparr>) [0, 1, 2] (Some 2) = [0, 1]
   \<and> curate_list {} (\<lambda>r. \<lparr>vid = replicate (Suc r) CHR ''a'', uploaded = 0,
                    deleted = element_new 0 False, known_not_deleted = True\<rparr>) [0, 1, 2] (Some 0) = []"
  by (simp add: curate_list_prefix downloaded_def)


section \<open>Properties of the refresh\<close>

text \<open>The trailing tokens of some titles, and the groups of the sample document.\<close>

lemma kind_examples:
  "kind_of ''Chan - Videos'' = ''videos'' \<and> kind_of ''Chan - Podcasts'' = ''podcasts''
   \<and> kind_of ''a - - LIVE'' = ''- live''"
  by code_simp

lemma normalize_sample:
  "normalize_metadata None sample_metadata =
     Returned ([sample_entry ''a'' (Some [''22'']) 5, sample_entry ''u'' None 8,
                sample_entry ''n'' (Some [''22'']) 9], [], [])"
  using kind_examples by (simp add: sample_metadata_def err_msg_def)

lemma report_deleted_frame:
  "videos (report_deleted now vs ch) = videos ch
   \<and> livestreams (report_deleted now vs ch) = livestreams ch
   \<and> shorts (report_deleted now vs ch) = shorts ch
   \<and> next_ref (report_deleted now vs ch) = next_ref ch
   \<and> reporter_added (report_deleted now vs ch) = reporter_added ch"
  by (induction vs arbitrary: ch) simp_all

lemma current_element_update:
  "current (element_update now data e) = data"
  by (simp add: element_update_def current_def)

lemma report_deleted_heap:
  "heap (report_deleted now vs ch) r =
     (if r \<in> set vs \<and> current (deleted (heap ch r)) = False \<and> \<not> known_not_deleted (heap ch r)
      then (heap ch r)\<lparr>deleted := element_update now True (deleted (heap ch r))\<rparr>
      else heap ch r)"
proof (induction vs arbitrary: ch)
  case Nil
  then show ?case by simp
next
  case (Cons video rest)
  then show ?case
    by (auto simp add: current_element_update)
qed

lemma report_deleted_count:
  "count_list (reporter_deleted (report_deleted now vs ch)) r =
     count_list (reporter_deleted ch) r +
     (if r \<in> set vs \<and> current (deleted (heap ch r)) = False \<and> \<not> known_not_deleted (heap ch r)
      then 1 else 0)"
proof (induction vs arbitrary: ch)
  case Nil
  then show ?case by simp
next
  case (Cons video rest)
  then show ?case
    by (auto simp add: current_element_update)
qed


lemma report_deleted_all_frame:
  "videos (report_deleted_all now ch) = videos ch
   \<and> livestreams (report_deleted_all now ch) = livestreams ch
   \<and> shorts (report_deleted_all now ch) = shorts ch
   \<and> reporter_added (report_deleted_all now ch) = reporter_added ch"
  by (simp add: report_deleted_all_def Let_def report_deleted_frame)

lemma report_deleted_all_heap:
  "heap (report_deleted_all now ch) r =
     (if r \<in> set (videos ch) \<union> set (livestreams ch) \<union> set (shorts ch)
         \<and> current (deleted (heap ch r)) = False \<and> \<not> known_not_deleted (heap ch r)
      then (heap ch r)\<lparr>deleted := element_update now True (deleted (heap ch r))\<rparr>
      else heap ch r)"
  by (simp add: report_deleted_all_def Let_def report_deleted_frame report_deleted_heap
      current_element_update)

lemma report_deleted_all_count:
  "count_list (reporter_deleted (report_deleted_all now ch)) r =
     count_list (reporter_deleted ch) r +
     (if r \<in> set (videos ch) \<union> set (livestreams ch) \<union> set (shorts ch)
         \<and> current (deleted (heap ch r)) = False \<and> \<not> known_not_deleted (heap ch r)
      then 1 else 0)"
  by (simp add: report_deleted_all_def Let_def report_deleted_frame report_deleted_heap
      report_deleted_count current_element_update)

lemma bucket_of_set_bucket:
  "bucket_of c (set_bucket c b ch) = b"
  by (cases c) simp_all

lemma set_bucket_frame:
  "heap (set_bucket c b ch) = heap ch
   \<and> next_ref (set_bucket c b ch) = next_ref ch
   \<and> reporter_added (set_bucket c b ch) = reporter_added ch
   \<and> reporter_deleted (set_bucket c b ch) = reporter_deleted ch"
  by (cases c) simp_all

lemma bucket_of_frame:
  "bucket_of c (ch\<lparr>heap := h\<rparr>) = bucket_of c ch
   \<and> bucket_of c (ch\<lparr>next_ref := n\<rparr>) = bucket_of c ch
   \<and> bucket_of c (ch\<lparr>reporter_added := a\<rparr>) = bucket_of c ch"
  by (cases c) simp_all

lemma update_existing_no_match:
  "\<forall>video \<in> set b. vid (h video) \<noteq> i \<Longrightarrow> update_existing upd i h b = None"
  by (induction b) auto

lemma update_existing_first_match:
  "\<forall>video \<in> set before. vid (h video) \<noteq> i \<Longrightarrow> vid (h r) = i \<Longrightarrow>
   update_existing upd i h (before @ r # rest) = Some (h(r := upd (h r)))"
  by (induction before) auto

lemma merge_entries_append:
  "merge_entries video_new video_update c (es1 @ es2) ch =
     merge_entries video_new video_update c es2 (merge_entries video_new video_update c es1 ch)"
  by (induction es1 arbitrary: ch) (simp_all add: Let_def split: option.splits)

lemma merge_entries_skips:
  "merge_entries video_new video_update c es ch =
     merge_entries video_new video_update c
       (filter (\<lambda>e. formats e \<noteq> None \<and> formats e \<noteq> Some []) es) ch"
  by (induction es arbitrary: ch) (auto simp add: Let_def split: option.splits)

lemma sort_newest_sorted:
  "sorted_wrt (\<lambda>a b. uploaded (h b) \<le> uploaded (h a)) (sort_newest h bucket)"
proof -
  have "sorted (map (\<lambda>video. - uploaded (h video)) (sort_newest h bucket))"
    unfolding sort_newest_def by (rule sorted_sort_key)
  then show ?thesis
    by (simp add: sorted_map)
qed

lemma sort_newest_stable:
  "filter (\<lambda>video. uploaded (h video) = t) (sort_newest h bucket)
     = filter (\<lambda>video. uploaded (h video) = t) bucket"
  using sort_key_stable [of "\<lambda>video. - uploaded (h video)" "- t" bucket]
  by (simp add: sort_newest_def)

lemma sort_newest_mset:
  "mset (sort_newest h bucket) = mset bucket"
  by (simp add: sort_newest_def)

text \<open>
  Claim C9. In the merge of a category, an entry without the key \<^verbatim>\<open>formats\<close> or with an
  empty list of formats has no effect at all: the merge of a list of entries is the merge
  of the entries that have formats, and the merge of one such entry leaves the archive
  as it is. The entries are merged one after the other. An entry with formats updates
  the first item of the bucket that has its identifier, and changes nothing else; when
  no item has it, a new item is stored at a fresh reference, appended to the bucket and
  appended once to the reporter's bucket of added items. After the merge the bucket is
  sorted by upload time, newest first, and holds the same items.
\<close>

theorem merge_skips_unavailable:
  "merge_entries video_new video_update c es ch =
     merge_entries video_new video_update c
       (filter (\<lambda>e. formats e \<noteq> None \<and> formats e \<noteq> Some []) es) ch
   \<and> merge_entries video_new video_update c (es1 @ es2) ch =
       merge_entries video_new video_update c es2 (merge_entries video_new video_update c es1 ch)
   \<and> (formats e = None \<or> formats e = Some [] \<longrightarrow>
        merge_entries video_new video_update c [e] ch = ch)
   \<and> (formats e \<noteq> None \<and> formats e \<noteq> Some []
        \<and> bucket_of c ch = before @ r # rest
        \<and> (\<forall>video \<in> set before. vid (heap ch video) \<noteq> entry_id e)
        \<and> vid (heap ch r) = entry_id e \<longrightarrow>
        merge_entries video_new video_update c [e] ch
          = ch\<lparr>heap := (heap ch)(r := video_update e (heap ch r))\<rparr>)
   \<and> (formats e \<noteq> None \<and> formats e \<noteq> Some []
        \<and> (\<forall>video \<in> set (bucket_of c ch). vid (heap ch video) \<noteq> entry_id e) \<longrightarrow>
        heap (merge_entries video_new video_update c [e] ch)
          = (heap ch)(next_ref ch := video_new e)
        \<and> bucket_of c (merge_entries video_new video_update c [e] ch)
          = bucket_of c ch @ [next_ref ch]
        \<and> reporter_added (merge_entries video_new video_update c [e] ch)
          = reporter_added ch @ [next_ref ch]
        \<and> next_ref (merge_entries video_new video_update c [e] ch) = Suc (next_ref ch)
        \<and> reporter_deleted (merge_entries video_new video_update c [e] ch)
          = reporter_deleted ch)
   \<and> sorted_wrt
        (\<lambda>a b. uploaded (heap (parse_metadata_videos_comp video_new video_update es c ch) b)
              \<le> uploaded (heap (parse_metadata_videos_comp video_new video_update es c ch) a))
        (bucket_of c (parse_metadata_videos_comp video_new video_update es c ch))
   \<and> mset (bucket_of c (parse_metadata_videos_comp video_new video_update es c ch))
        = mset (bucket_of c (merge_entries video_new video_update c es ch))
   \<and> heap (parse_metadata_videos_comp video_new video_update es c ch)
        = heap (merge_entries video_new video_update c es ch)
   \<and> reporter_added (parse_metadata_videos_comp video_new video_update es c ch)
        = reporter_added (merge_entries video_new video_update c es ch)"
proof (intro conjI impI)
  show "merge_entries video_new video_update c es ch =
     merge_entries video_new video_update c
       (filter (\<lambda>e. formats e \<noteq> None \<and> formats e \<noteq> Some []) es) ch"
    by (rule merge_entries_skips)
  show "merge_entries video_new video_update c (es1 @ es2) ch =
       merge_entries video_new video_update c es2 (merge_entries video_new video_update c es1 ch)"
    by (rule merge_entries_append)
next
  assume "formats e = None \<or> formats e = Some []"
  then show "merge_entries video_new video_update c [e] ch = ch"
    by auto
next
  assume a: "formats e \<noteq> None \<and> formats e \<noteq> Some []
        \<and> bucket_of c ch = before @ r # rest
        \<and> (\<forall>video \<in> set before. vid (heap ch video) \<noteq> entry_id e)
        \<and> vid (heap ch r) = entry_id e"
  then have "update_existing (video_update e) (entry_id e) (heap ch) (bucket_of c ch)
      = Some ((heap ch)(r := video_update e (heap ch r)))"
    by (simp add: update_existing_first_match)
  with a show "merge_entries video_new video_update c [e] ch
          = ch\<lparr>heap := (heap ch)(r := video_update e (heap ch r))\<rparr>"
    by (auto split: option.splits)
next
  assume a: "formats e \<noteq> None \<and> formats e \<noteq> Some []
        \<and> (\<forall>video \<in> set (bucket_of c ch). vid (heap ch video) \<noteq> entry_id e)"
  then have n: "update_existing (video_update e) (entry_id e) (heap ch) (bucket_of c ch) = None"
    by (simp add: update_existing_no_match)
  from a n show "heap (merge_entries video_new video_update c [e] ch)
          = (heap ch)(next_ref ch := video_new e)"
    by (auto simp add: Let_def set_bucket_frame split: option.splits)
  from a n show "bucket_of c (merge_entries video_new video_update c [e] ch)
          = bucket_of c ch @ [next_ref ch]"
    by (auto simp add: Let_def bucket_of_set_bucket bucket_of_frame split: option.splits)
  from a n show "reporter_added (merge_entries video_new video_update c [e] ch)
          = reporter_added ch @ [next_ref ch]"
    by (auto simp add: Let_def set_bucket_frame split: option.splits)
  from a n show "next_ref (merge_entries video_new video_update c [e] ch) = Suc (next_ref ch)"
    by (auto simp add: Let_def set_bucket_frame split: option.splits)
  from a n show "reporter_deleted (merge_entries video_new video_update c [e] ch)
          = reporter_deleted ch"
    by (auto simp add: Let_def set_bucket_frame split: option.splits)
next
  show "sorted_wrt
        (\<lambda>a b. uploaded (heap (parse_metadata_videos_comp video_new video_update es c ch) b)
              \<le> uploaded (heap (parse_metadata_videos_comp video_new video_update es c ch) a))
        (bucket_of c (parse_metadata_videos_comp video_new video_update es c ch))"
    by (simp add: parse_metadata_videos_comp_def Let_def bucket_of_set_bucket set_bucket_frame
        sort_newest_sorted)
  show "mset (bucket_of c (parse_metadata_videos_comp video_new video_update es c ch))
        = mset (bucket_of c (merge_entries video_new video_update c es ch))"
    by (simp add: parse_metadata_videos_comp_def Let_def bucket_of_set_bucket sort_newest_mset)
  show "heap (parse_metadata_videos_comp video_new video_update es c ch)
        = heap (merge_entries video_new video_update c es ch)"
    by (simp add: parse_metadata_videos_comp_def Let_def set_bucket_frame)
  show "reporter_added (parse_metadata_videos_comp video_new video_update es c ch)
        = reporter_added (merge_entries video_new video_update c es ch)"
    by (simp add: parse_metadata_videos_comp_def Let_def set_bucket_frame)
qed


text \<open>On the sample archive: u has no formats, a is known, n is new.\<close>

theorem merge_skips_unavailable_witness:
  "merge_entries sample_new sample_update Videos [sample_entry ''u'' None 8] sample_channel
     = sample_channel
   \<and> merge_entries sample_new sample_update Videos [sample_entry ''a'' (Some [''22'']) 5]
       sample_channel
     = sample_channel\<lparr>heap := (heap sample_channel)
         (0 := sample_update (sample_entry ''a'' (Some [''22'']) 5) (heap sample_channel 0))\<rparr>
   \<and> bucket_of Videos (merge_entries sample_new sample_update Videos
       [sample_entry ''n'' (Some [''22'']) 9] sample_channel) = [0, 1, 3]
   \<and> reporter_added (merge_entries sample_new sample_update Videos
       [sample_entry ''n'' (Some [''22'']) 9] sample_channel) = [3]
   \<and> vid (heap (merge_entries sample_new sample_update Videos
       [sample_entry ''n'' (Some [''22'']) 9] sample_channel) 3) = ''n''"
proof -
  let ?u = "sample_entry ''u'' None 8"
  let ?a = "sample_entry ''a'' (Some [''22'']) 5"
  let ?n = "sample_entry ''n'' (Some [''22'']) 9"
  have hu: "formats ?u = None \<or> formats ?u = Some []"
    by (simp add: sample_entry_def)
  have ha: "formats ?a \<noteq> None \<and> formats ?a \<noteq> Some []
        \<and> bucket_of Videos sample_channel = [] @ 0 # [1]
        \<and> (\<forall>video \<in> set []. vid (heap sample_channel video) \<noteq> entry_id ?a)
        \<and> vid (heap sample_channel 0) = entry_id ?a"
    by (simp add: sample_entry_def sample_channel_def sample_video_def)
  have hn: "formats ?n \<noteq> None \<and> formats ?n \<noteq> Some []
        \<and> (\<forall>video \<in> set (bucket_of Videos sample_channel).
              vid (heap sample_channel video) \<noteq> entry_id ?n)"
    by (simp add: sample_entry_def sample_channel_def sample_video_def)
  have c: "bucket_of Videos sample_channel = [0, 1] \<and> next_ref sample_channel = 3
      \<and> reporter_added sample_channel = []"
    by (simp add: sample_channel_def)
  from merge_skips_unavailable [of sample_new sample_update Videos "[]" sample_channel "[]" "[]" ?u]
    hu
  have one: "merge_entries sample_new sample_update Videos [?u] sample_channel = sample_channel"
    by blast
  from merge_skips_unavailable [of sample_new sample_update Videos "[]" sample_channel "[]" "[]" ?a
      "[]" 0 "[1]"] ha
  have two: "merge_entries sample_new sample_update Videos [?a] sample_channel
     = sample_channel\<lparr>heap := (heap sample_channel)
         (0 := sample_update ?a (heap sample_channel 0))\<rparr>"
    by blast
  from merge_skips_unavailable [of sample_new sample_update Videos "[]" sample_channel "[]" "[]" ?n]
    hn
  have three: "heap (merge_entries sample_new sample_update Videos [?n] sample_channel)
          = (heap sample_channel)(next_ref sample_channel := sample_new ?n)
        \<and> bucket_of Videos (merge_entries sample_new sample_update Videos [?n] sample_channel)
          = bucket_of Videos sample_channel @ [next_ref sample_channel]
        \<and> reporter_added (merge_entries sample_new sample_update Videos [?n] sample_channel)
          = reporter_added sample_channel @ [next_ref sample_channel]"
    by blast
  from three c have four: "bucket_of Videos (merge_entries sample_new sample_update Videos
       [?n] sample_channel) = [0, 1, 3]
   \<and> reporter_added (merge_entries sample_new sample_update Videos [?n] sample_channel) = [3]
   \<and> vid (heap (merge_entries sample_new sample_update Videos [?n] sample_channel) 3) = ''n''"
    by (simp add: sample_new_def sample_entry_def)
  from one two four show ?thesis by blast
qed

lemma update_existing_elsewhere:
  "update_existing upd i h b = Some h' \<Longrightarrow> (r \<in> set b \<longrightarrow> vid (h r) \<noteq> i) \<Longrightarrow> h' r = h r"
  by (induction b) (auto split: if_splits)

lemma merge_entries_unobserved:
  assumes "r < next_ref ch"
    and "r \<in> set (bucket_of c ch) \<longrightarrow>
           (\<forall>e \<in> set es. formats e \<noteq> None \<and> formats e \<noteq> Some [] \<longrightarrow> entry_id e \<noteq> vid (heap ch r))"
  shows "heap (merge_entries video_new video_update c es ch) r = heap ch r
     \<and> r < next_ref (merge_entries video_new video_update c es ch)
     \<and> (r \<in> set (bucket_of c' (merge_entries video_new video_update c es ch))
          \<longleftrightarrow> r \<in> set (bucket_of c' ch))
     \<and> reporter_deleted (merge_entries video_new video_update c es ch) = reporter_deleted ch"
  using assms
proof (induction es arbitrary: ch)
  case Nil
  then show ?case by simp
next
  case (Cons e es)
  show ?case
  proof (cases "formats e = None \<or> formats e = Some []")
    case True
    then have m: "merge_entries video_new video_update c (e # es) ch
        = merge_entries video_new video_update c es ch"
      by auto
    show ?thesis unfolding m using Cons.prems by (intro Cons.IH) auto
  next
    case False
    then have distinct_id: "r \<in> set (bucket_of c ch) \<longrightarrow> vid (heap ch r) \<noteq> entry_id e"
      using Cons.prems(2) by auto
    show ?thesis
    proof (cases "update_existing (video_update e) (entry_id e) (heap ch) (bucket_of c ch)")
      case (Some h')
      let ?ch = "ch\<lparr>heap := h'\<rparr>"
      have m: "merge_entries video_new video_update c (e # es) ch
          = merge_entries video_new video_update c es ?ch"
        using False Some by (auto split: option.splits)
      have same: "h' r = heap ch r"
        using Some distinct_id by (rule update_existing_elsewhere)
      have b: "bucket_of c' ?ch = bucket_of c' ch" "bucket_of c ?ch = bucket_of c ch"
        by (simp_all add: bucket_of_frame)
      have "heap (merge_entries video_new video_update c es ?ch) r = heap ?ch r
         \<and> r < next_ref (merge_entries video_new video_update c es ?ch)
         \<and> (r \<in> set (bucket_of c' (merge_entries video_new video_update c es ?ch))
              \<longleftrightarrow> r \<in> set (bucket_of c' ?ch))
         \<and> reporter_deleted (merge_entries video_new video_update c es ?ch) = reporter_deleted ?ch"
        using Cons.prems same by (intro Cons.IH) (auto simp add: b)
      then show ?thesis unfolding m using same by (simp add: b)
    next
      case None
      let ?v = "next_ref ch"
      let ?ch1 = "ch\<lparr>heap := (heap ch)(?v := video_new e), next_ref := Suc ?v\<rparr>"
      let ?ch2 = "set_bucket c (bucket_of c ?ch1 @ [?v]) ?ch1"
      let ?ch3 = "?ch2\<lparr>reporter_added := reporter_added ?ch2 @ [?v]\<rparr>"
      have m: "merge_entries video_new video_update c (e # es) ch
          = merge_entries video_new video_update c es ?ch3"
        using False None by (auto simp add: Let_def split: option.splits)
      have ne: "r \<noteq> ?v" using Cons.prems(1) by simp
      have h3: "heap ?ch3 r = heap ch r" using ne by (simp add: set_bucket_frame)
      have n3: "next_ref ?ch3 = Suc ?v" by (simp add: set_bucket_frame)
      have d3: "reporter_deleted ?ch3 = reporter_deleted ch" by (simp add: set_bucket_frame)
      have b3: "r \<in> set (bucket_of k ?ch3) \<longleftrightarrow> r \<in> set (bucket_of k ch)" for k
        using ne by (cases c; cases k) simp_all
      have "heap (merge_entries video_new video_update c es ?ch3) r = heap ?ch3 r
         \<and> r < next_ref (merge_entries video_new video_update c es ?ch3)
         \<and> (r \<in> set (bucket_of c' (merge_entries video_new video_update c es ?ch3))
              \<longleftrightarrow> r \<in> set (bucket_of c' ?ch3))
         \<and> reporter_deleted (merge_entries video_new video_update c es ?ch3) = reporter_deleted ?ch3"
      proof (intro Cons.IH)
        show "r < next_ref ?ch3" using Cons.prems(1) n3 by simp
        show "r \<in> set (bucket_of c ?ch3) \<longrightarrow>
           (\<forall>e \<in> set es. formats e \<noteq> None \<and> formats e \<noteq> Some [] \<longrightarrow> entry_id e \<noteq> vid (heap ?ch3 r))"
          using Cons.prems(2) unfolding b3 h3 by simp
      qed
      then show ?thesis unfolding m using h3 d3 b3 by simp
    qed
  qed
qed

lemma set_sort_newest:
  "set (sort_newest h bucket) = set bucket"
  by (simp add: sort_newest_def)

lemma parse_metadata_videos_unobserved:
  assumes "r < next_ref ch"
    and "r \<in> set (bucket_of c ch) \<longrightarrow>
           (\<forall>e \<in> set es. formats e \<noteq> None \<and> formats e \<noteq> Some [] \<longrightarrow> entry_id e \<noteq> vid (heap ch r))"
  shows "heap (parse_metadata_videos video_new video_update es c ch) r = heap ch r
     \<and> r < next_ref (parse_metadata_videos video_new video_update es c ch)
     \<and> (r \<in> set (bucket_of c' (parse_metadata_videos video_new video_update es c ch))
          \<longleftrightarrow> r \<in> set (bucket_of c' ch))
     \<and> reporter_deleted (parse_metadata_videos video_new video_update es c ch) = reporter_deleted ch"
proof -
  let ?m = "merge_entries video_new video_update c es ch"
  note m = merge_entries_unobserved [OF assms, of video_new video_update]
  have p: "parse_metadata_videos video_new video_update es c ch
      = set_bucket c (sort_newest (heap ?m) (bucket_of c ?m)) ?m"
    by (simp add: parse_metadata_videos_def parse_metadata_videos_comp_def Let_def)
  have b: "set (bucket_of c' (set_bucket c (sort_newest (heap ?m) (bucket_of c ?m)) ?m))
      = set (bucket_of c' ?m)"
    by (cases c; cases c') (simp_all add: set_sort_newest)
  show ?thesis unfolding p using m [of c'] by (simp add: set_bucket_frame b)
qed


lemma parse_metadata_returns:
  "normalize_metadata em res = Returned (vs, ls, ss) \<Longrightarrow>
   parse_metadata em video_new video_update now res ch =
     Returned (report_deleted_all now
       (parse_metadata_videos video_new video_update ss Shorts
         (parse_metadata_videos video_new video_update ls Livestreams
           (parse_metadata_videos video_new video_update vs Videos ch))))"
  by (simp add: parse_metadata_def Let_def)

lemma refresh_unobserved:
  assumes groups: "normalize_metadata em res = Returned (vs, ls, ss)"
    and stored: "r < next_ref ch"
    and unseen_vs: "r \<in> set (videos ch) \<longrightarrow>
      (\<forall>e \<in> set vs. formats e \<noteq> None \<and> formats e \<noteq> Some [] \<longrightarrow> entry_id e \<noteq> vid (heap ch r))"
    and unseen_ls: "r \<in> set (livestreams ch) \<longrightarrow>
      (\<forall>e \<in> set ls. formats e \<noteq> None \<and> formats e \<noteq> Some [] \<longrightarrow> entry_id e \<noteq> vid (heap ch r))"
    and unseen_ss: "r \<in> set (shorts ch) \<longrightarrow>
      (\<forall>e \<in> set ss. formats e \<noteq> None \<and> formats e \<noteq> Some [] \<longrightarrow> entry_id e \<noteq> vid (heap ch r))"
  shows "\<exists>ch'. parse_metadata em video_new video_update now res ch = Returned ch'
     \<and> r < next_ref ch'
     \<and> (r \<in> set (videos ch') \<longleftrightarrow> r \<in> set (videos ch))
     \<and> (r \<in> set (livestreams ch') \<longleftrightarrow> r \<in> set (livestreams ch))
     \<and> (r \<in> set (shorts ch') \<longleftrightarrow> r \<in> set (shorts ch))
     \<and> heap ch' r =
         (if r \<in> set (videos ch) \<union> set (livestreams ch) \<union> set (shorts ch)
             \<and> current (deleted (heap ch r)) = False \<and> \<not> known_not_deleted (heap ch r)
          then (heap ch r)\<lparr>deleted := element_update now True (deleted (heap ch r))\<rparr>
          else heap ch r)
     \<and> count_list (reporter_deleted ch') r =
         count_list (reporter_deleted ch) r +
         (if r \<in> set (videos ch) \<union> set (livestreams ch) \<union> set (shorts ch)
             \<and> current (deleted (heap ch r)) = False \<and> \<not> known_not_deleted (heap ch r)
          then 1 else 0)"
proof -
  let ?ch1 = "parse_metadata_videos video_new video_update vs Videos ch"
  let ?ch2 = "parse_metadata_videos video_new video_update ls Livestreams ?ch1"
  let ?ch3 = "parse_metadata_videos video_new video_update ss Shorts ?ch2"
  have u1: "r \<in> set (bucket_of Videos ch) \<longrightarrow>
      (\<forall>e \<in> set vs. formats e \<noteq> None \<and> formats e \<noteq> Some [] \<longrightarrow> entry_id e \<noteq> vid (heap ch r))"
    using unseen_vs by simp
  note p1 = parse_metadata_videos_unobserved [OF stored u1, of video_new video_update]
  have h1: "heap ?ch1 r = heap ch r" and n1: "r < next_ref ?ch1"
    and d1: "reporter_deleted ?ch1 = reporter_deleted ch"
    using p1 [of Videos] by simp_all
  have b1: "r \<in> set (videos ?ch1) \<longleftrightarrow> r \<in> set (videos ch)"
    "r \<in> set (livestreams ?ch1) \<longleftrightarrow> r \<in> set (livestreams ch)"
    "r \<in> set (shorts ?ch1) \<longleftrightarrow> r \<in> set (shorts ch)"
    using p1 [of Videos] p1 [of Livestreams] p1 [of Shorts] by simp_all
  have u2: "r \<in> set (bucket_of Livestreams ?ch1) \<longrightarrow>
      (\<forall>e \<in> set ls. formats e \<noteq> None \<and> formats e \<noteq> Some [] \<longrightarrow> entry_id e \<noteq> vid (heap ?ch1 r))"
    using unseen_ls b1 h1 by simp
  note p2 = parse_metadata_videos_unobserved [OF n1 u2, of video_new video_update]
  have h2: "heap ?ch2 r = heap ch r" and n2: "r < next_ref ?ch2"
    and d2: "reporter_deleted ?ch2 = reporter_deleted ch"
    using p2 [of Videos] h1 d1 by simp_all
  have b2: "r \<in> set (videos ?ch2) \<longleftrightarrow> r \<in> set (videos ch)"
    "r \<in> set (livestreams ?ch2) \<longleftrightarrow> r \<in> set (livestreams ch)"
    "r \<in> set (shorts ?ch2) \<longleftrightarrow> r \<in> set (shorts ch)"
    using p2 [of Videos] p2 [of Livestreams] p2 [of Shorts] b1 by simp_all
  have u3: "r \<in> set (bucket_of Shorts ?ch2) \<longrightarrow>
      (\<forall>e \<in> set ss. formats e \<noteq> None \<and> formats e \<noteq> Some [] \<longrightarrow> entry_id e \<noteq> vid (heap ?ch2 r))"
    using unseen_ss b2 h2 by simp
  note p3 = parse_metadata_videos_unobserved [OF n2 u3, of video_new video_update]
  have h3: "heap ?ch3 r = heap ch r" and n3: "r < next_ref ?ch3"
    and d3: "reporter_deleted ?ch3 = reporter_deleted ch"
    using p3 [of Videos] h2 d2 by simp_all
  have b3: "r \<in> set (videos ?ch3) \<longleftrightarrow> r \<in> set (videos ch)"
    "r \<in> set (livestreams ?ch3) \<longleftrightarrow> r \<in> set (livestreams ch)"
    "r \<in> set (shorts ?ch3) \<longleftrightarrow> r \<in> set (shorts ch)"
    using p3 [of Videos] p3 [of Livestreams] p3 [of Shorts] b2 by simp_all
  have ret: "parse_metadata em video_new video_update now res ch
      = Returned (report_deleted_all now ?ch3)"
    using groups by (rule parse_metadata_returns)
  have f: "videos (report_deleted_all now ?ch3) = videos ?ch3"
    "livestreams (report_deleted_all now ?ch3) = livestreams ?ch3"
    "shorts (report_deleted_all now ?ch3) = shorts ?ch3"
    by (simp_all add: report_deleted_all_frame)
  have n: "next_ref (report_deleted_all now ?ch3) = next_ref ?ch3"
    by (simp add: report_deleted_all_def Let_def report_deleted_frame)
  have hp: "heap (report_deleted_all now ?ch3) r =
         (if r \<in> set (videos ch) \<union> set (livestreams ch) \<union> set (shorts ch)
             \<and> current (deleted (heap ch r)) = False \<and> \<not> known_not_deleted (heap ch r)
          then (heap ch r)\<lparr>deleted := element_update now True (deleted (heap ch r))\<rparr>
          else heap ch r)"
    unfolding report_deleted_all_heap h3 using b3 by simp
  have cn: "count_list (reporter_deleted (report_deleted_all now ?ch3)) r =
         count_list (reporter_deleted ch) r +
         (if r \<in> set (videos ch) \<union> set (livestreams ch) \<union> set (shorts ch)
             \<and> current (deleted (heap ch r)) = False \<and> \<not> known_not_deleted (heap ch r)
          then 1 else 0)"
    unfolding report_deleted_all_count h3 d3 using b3 by simp
  show ?thesis
    unfolding ret using n3 b3 hp cn by (intro exI [of _ "report_deleted_all now ?ch3"]) (simp add: f n)
qed


text \<open>
  Claim C4, amended. Take an item that is stored in one of the three collections and
  that this refresh does not observe: in every collection that holds it, no entry with
  formats of that category's group carries its identifier, so the merge neither
  updates nor creates it. If its flag \<^verbatim>\<open>known_not_deleted\<close> is unset when the pass starts
  and its deletion history is not true already, the refresh leaves it with a deletion
  history that is true, with the last snapshot (now, true), and with one more
  occurrence in the reporter's bucket of deleted items; a second refresh that does not
  observe it either changes neither the item nor the number of its occurrences, because
  the sweep passes over an item whose deletion history is true. If its flag is set when
  the pass starts (it was observed earlier on this archive in memory) or its deletion
  history is true already, both refreshes leave the item and the bucket as they are.
\<close>

theorem deletion_sweep:
  assumes pass1: "normalize_metadata em res = Returned (vs, ls, ss)"
    and pass2: "normalize_metadata em res2 = Returned (vs2, ls2, ss2)"
    and stored: "r < next_ref ch"
    and member: "r \<in> set (videos ch) \<union> set (livestreams ch) \<union> set (shorts ch)"
    and unseen_vs: "r \<in> set (videos ch) \<longrightarrow>
      (\<forall>e \<in> set vs \<union> set vs2.
         formats e \<noteq> None \<and> formats e \<noteq> Some [] \<longrightarrow> entry_id e \<noteq> vid (heap ch r))"
    and unseen_ls: "r \<in> set (livestreams ch) \<longrightarrow>
      (\<forall>e \<in> set ls \<union> set ls2.
         formats e \<noteq> None \<and> formats e \<noteq> Some [] \<longrightarrow> entry_id e \<noteq> vid (heap ch r))"
    and unseen_ss: "r \<in> set (shorts ch) \<longrightarrow>
      (\<forall>e \<in> set ss \<union> set ss2.
         formats e \<noteq> None \<and> formats e \<noteq> Some [] \<longrightarrow> entry_id e \<noteq> vid (heap ch r))"
  shows "\<exists>ch' ch''.
       parse_metadata em video_new video_update now res ch = Returned ch'
     \<and> parse_metadata em video_new video_update now2 res2 ch' = Returned ch''
     \<and> (\<not> known_not_deleted (heap ch r) \<and> current (deleted (heap ch r)) \<noteq> True \<longrightarrow>
          current (deleted (heap ch' r)) = True
        \<and> last (later (deleted (heap ch' r))) = (now, True)
        \<and> count_list (reporter_deleted ch') r = count_list (reporter_deleted ch) r + 1
        \<and> heap ch'' r = heap ch' r
        \<and> count_list (reporter_deleted ch'') r = count_list (reporter_deleted ch) r + 1)
     \<and> (known_not_deleted (heap ch r) \<or> current (deleted (heap ch r)) = True \<longrightarrow>
          heap ch' r = heap ch r
        \<and> count_list (reporter_deleted ch') r = count_list (reporter_deleted ch) r
        \<and> heap ch'' r = heap ch r
        \<and> count_list (reporter_deleted ch'') r = count_list (reporter_deleted ch) r)"
proof -
  let ?swept = "r \<in> set (videos ch) \<union> set (livestreams ch) \<union> set (shorts ch)
             \<and> current (deleted (heap ch r)) = False \<and> \<not> known_not_deleted (heap ch r)"
  have u1: "r \<in> set (videos ch) \<longrightarrow>
      (\<forall>e \<in> set vs. formats e \<noteq> None \<and> formats e \<noteq> Some [] \<longrightarrow> entry_id e \<noteq> vid (heap ch r))"
    "r \<in> set (livestreams ch) \<longrightarrow>
      (\<forall>e \<in> set ls. formats e \<noteq> None \<and> formats e \<noteq> Some [] \<longrightarrow> entry_id e \<noteq> vid (heap ch r))"
    "r \<in> set (shorts ch) \<longrightarrow>
      (\<forall>e \<in> set ss. formats e \<noteq> None \<and> formats e \<noteq> Some [] \<longrightarrow> entry_id e \<noteq> vid (heap ch r))"
    using unseen_vs unseen_ls unseen_ss by simp_all
  from refresh_unobserved [OF pass1 stored u1, of video_new video_update now]
  obtain ch' where r1: "parse_metadata em video_new video_update now res ch = Returned ch'"
    and n1: "r < next_ref ch'"
    and b1: "r \<in> set (videos ch') \<longleftrightarrow> r \<in> set (videos ch)"
      "r \<in> set (livestreams ch') \<longleftrightarrow> r \<in> set (livestreams ch)"
      "r \<in> set (shorts ch') \<longleftrightarrow> r \<in> set (shorts ch)"
    and h1: "heap ch' r = (if ?swept
          then (heap ch r)\<lparr>deleted := element_update now True (deleted (heap ch r))\<rparr>
          else heap ch r)"
    and c1: "count_list (reporter_deleted ch') r =
         count_list (reporter_deleted ch) r + (if ?swept then 1 else 0)"
    by blast
  have same_id: "vid (heap ch' r) = vid (heap ch r)"
    by (simp add: h1)
  have u2: "r \<in> set (videos ch') \<longrightarrow>
      (\<forall>e \<in> set vs2. formats e \<noteq> None \<and> formats e \<noteq> Some [] \<longrightarrow> entry_id e \<noteq> vid (heap ch' r))"
    "r \<in> set (livestreams ch') \<longrightarrow>
      (\<forall>e \<in> set ls2. formats e \<noteq> None \<and> formats e \<noteq> Some [] \<longrightarrow> entry_id e \<noteq> vid (heap ch' r))"
    "r \<in> set (shorts ch') \<longrightarrow>
      (\<forall>e \<in> set ss2. formats e \<noteq> None \<and> formats e \<noteq> Some [] \<longrightarrow> entry_id e \<noteq> vid (heap ch' r))"
    using unseen_vs unseen_ls unseen_ss unfolding b1 same_id by simp_all
  let ?again = "r \<in> set (videos ch') \<union> set (livestreams ch') \<union> set (shorts ch')
             \<and> current (deleted (heap ch' r)) = False \<and> \<not> known_not_deleted (heap ch' r)"
  from refresh_unobserved [OF pass2 n1 u2, of video_new video_update now2]
  obtain ch'' where r2: "parse_metadata em video_new video_update now2 res2 ch' = Returned ch''"
    and h2: "heap ch'' r = (if ?again
          then (heap ch' r)\<lparr>deleted := element_update now2 True (deleted (heap ch' r))\<rparr>
          else heap ch' r)"
    and c2: "count_list (reporter_deleted ch'') r =
         count_list (reporter_deleted ch') r + (if ?again then 1 else 0)"
    by blast
  have swept: "current (deleted (heap ch' r)) = True
        \<and> last (later (deleted (heap ch' r))) = (now, True)
        \<and> count_list (reporter_deleted ch') r = count_list (reporter_deleted ch) r + 1
        \<and> heap ch'' r = heap ch' r
        \<and> count_list (reporter_deleted ch'') r = count_list (reporter_deleted ch) r + 1"
    if a: "\<not> known_not_deleted (heap ch r) \<and> current (deleted (heap ch r)) \<noteq> True"
  proof -
    from a member have s: "?swept" by simp
    then have h: "heap ch' r = (heap ch r)\<lparr>deleted := element_update now True (deleted (heap ch r))\<rparr>"
      using h1 by simp
    have cur: "current (deleted (heap ch' r)) = True"
      by (simp add: h current_element_update)
    have lst: "last (later (deleted (heap ch' r))) = (now, True)"
      using a by (simp add: h element_update_def)
    have cnt: "count_list (reporter_deleted ch') r = count_list (reporter_deleted ch) r + 1"
      using c1 s by simp
    have "\<not> ?again" using cur by simp
    then have "heap ch'' r = heap ch' r"
      and "count_list (reporter_deleted ch'') r = count_list (reporter_deleted ch') r"
      using h2 c2 by auto
    with cur lst cnt show ?thesis by simp
  qed
  have kept: "heap ch' r = heap ch r
        \<and> count_list (reporter_deleted ch') r = count_list (reporter_deleted ch) r
        \<and> heap ch'' r = heap ch r
        \<and> count_list (reporter_deleted ch'') r = count_list (reporter_deleted ch) r"
    if a: "known_not_deleted (heap ch r) \<or> current (deleted (heap ch r)) = True"
  proof -
    from a have s: "\<not> ?swept" by auto
    then have h: "heap ch' r = heap ch r"
      and cnt: "count_list (reporter_deleted ch') r = count_list (reporter_deleted ch) r"
      using h1 c1 by auto
    have "\<not> ?again" using a h by auto
    then have "heap ch'' r = heap ch' r"
      and "count_list (reporter_deleted ch'') r = count_list (reporter_deleted ch') r"
      using h2 c2 by auto
    with h cnt show ?thesis by simp
  qed
  from r1 r2 swept kept show ?thesis by blast
qed

lemma normalize_later:
  "normalize_metadata None later_metadata = Returned ([sample_entry ''a'' (Some [''22'']) 5], [], [])"
  by (simp add: later_metadata_def)

text \<open>On the sample archive, with the sample document and then the document that lists
  only a: b is swept by the first refresh and passed over by the second, c was deleted
  before and is passed over by both. On the archive in which b is marked as seen, neither
  refresh changes b.\<close>

theorem deletion_sweep_witness:
  "(\<exists>ch' ch''.
       parse_metadata None sample_new sample_update 7 sample_metadata sample_channel = Returned ch'
     \<and> parse_metadata None sample_new sample_update 8 later_metadata ch' = Returned ch''
     \<and> current (deleted (heap ch' 1)) = True
     \<and> last (later (deleted (heap ch' 1))) = (7, True)
     \<and> count_list (reporter_deleted ch') 1 = 1
     \<and> heap ch'' 1 = heap ch' 1
     \<and> count_list (reporter_deleted ch'') 1 = 1
     \<and> heap ch' 2 = heap sample_channel 2
     \<and> count_list (reporter_deleted ch') 2 = 0
     \<and> heap ch'' 2 = heap sample_channel 2
     \<and> count_list (reporter_deleted ch'') 2 = 0)
   \<and> (\<exists>ch' ch''.
       parse_metadata None sample_new sample_update 7 sample_metadata seen_channel = Returned ch'
     \<and> parse_metadata None sample_new sample_update 8 later_metadata ch' = Returned ch''
     \<and> heap ch' 1 = heap seen_channel 1
     \<and> count_list (reporter_deleted ch') 1 = 0
     \<and> heap ch'' 1 = heap seen_channel 1
     \<and> count_list (reporter_deleted ch'') 1 = 0
     \<and> current (deleted (heap ch'' 1)) = False)"
proof -
  let ?vs = "[sample_entry ''a'' (Some [''22'']) 5, sample_entry ''u'' None 8,
              sample_entry ''n'' (Some [''22'']) 9]"
  let ?vs2 = "[sample_entry ''a'' (Some [''22'']) 5]"
  have stored: "1 < next_ref sample_channel" "2 < next_ref sample_channel"
    by (simp_all add: sample_channel_def)
  have member: "1 \<in> set (videos sample_channel) \<union> set (livestreams sample_channel)
        \<union> set (shorts sample_channel)"
    "2 \<in> set (videos sample_channel) \<union> set (livestreams sample_channel)
        \<union> set (shorts sample_channel)"
    by (simp_all add: sample_channel_def)
  have b_vs: "1 \<in> set (videos sample_channel) \<longrightarrow>
      (\<forall>e \<in> set ?vs \<union> set ?vs2.
         formats e \<noteq> None \<and> formats e \<noteq> Some [] \<longrightarrow> entry_id e \<noteq> vid (heap sample_channel 1))"
    by (simp add: sample_channel_def sample_video_def sample_entry_def)
  have b_ls: "1 \<in> set (livestreams sample_channel) \<longrightarrow>
      (\<forall>e \<in> set [] \<union> set [].
         formats e \<noteq> None \<and> formats e \<noteq> Some [] \<longrightarrow> entry_id e \<noteq> vid (heap sample_channel 1))"
    by simp
  have b_ss: "1 \<in> set (shorts sample_channel) \<longrightarrow>
      (\<forall>e \<in> set [] \<union> set [].
         formats e \<noteq> None \<and> formats e \<noteq> Some [] \<longrightarrow> entry_id e \<noteq> vid (heap sample_channel 1))"
    by simp
  have c_vs: "2 \<in> set (videos sample_channel) \<longrightarrow>
      (\<forall>e \<in> set ?vs \<union> set ?vs2.
         formats e \<noteq> None \<and> formats e \<noteq> Some [] \<longrightarrow> entry_id e \<noteq> vid (heap sample_channel 2))"
    by (simp add: sample_channel_def)
  have c_ls: "2 \<in> set (livestreams sample_channel) \<longrightarrow>
      (\<forall>e \<in> set [] \<union> set [].
         formats e \<noteq> None \<and> formats e \<noteq> Some [] \<longrightarrow> entry_id e \<noteq> vid (heap sample_channel 2))"
    by simp
  have c_ss: "2 \<in> set (shorts sample_channel) \<longrightarrow>
      (\<forall>e \<in> set [] \<union> set [].
         formats e \<noteq> None \<and> formats e \<noteq> Some [] \<longrightarrow> entry_id e \<noteq> vid (heap sample_channel 2))"
    by simp
  have b: "\<not> known_not_deleted (heap sample_channel 1)
      \<and> current (deleted (heap sample_channel 1)) \<noteq> True"
    by (simp add: sample_channel_def sample_video_def current_def)
  have c: "known_not_deleted (heap sample_channel 2) \<or> current (deleted (heap sample_channel 2)) = True"
    by (simp add: sample_channel_def sample_video_def current_def)
  have z: "count_list (reporter_deleted sample_channel) 1 = 0"
    "count_list (reporter_deleted sample_channel) 2 = 0"
    by (simp_all add: sample_channel_def)
  from deletion_sweep [OF normalize_sample normalize_later stored(1) member(1) b_vs b_ls b_ss,
      of sample_new sample_update 7 8]
  obtain ch' ch'' where
    r1: "parse_metadata None sample_new sample_update 7 sample_metadata sample_channel = Returned ch'"
    and r2: "parse_metadata None sample_new sample_update 8 later_metadata ch' = Returned ch''"
    and swept: "\<not> known_not_deleted (heap sample_channel 1)
        \<and> current (deleted (heap sample_channel 1)) \<noteq> True \<longrightarrow>
          current (deleted (heap ch' 1)) = True
        \<and> last (later (deleted (heap ch' 1))) = (7, True)
        \<and> count_list (reporter_deleted ch') 1 = count_list (reporter_deleted sample_channel) 1 + 1
        \<and> heap ch'' 1 = heap ch' 1
        \<and> count_list (reporter_deleted ch'') 1 = count_list (reporter_deleted sample_channel) 1 + 1"
    by blast
  from deletion_sweep [OF normalize_sample normalize_later stored(2) member(2) c_vs c_ls c_ss,
      of sample_new sample_update 7 8]
  obtain dh' dh'' where
    s1: "parse_metadata None sample_new sample_update 7 sample_metadata sample_channel = Returned dh'"
    and s2: "parse_metadata None sample_new sample_update 8 later_metadata dh' = Returned dh''"
    and kept: "known_not_deleted (heap sample_channel 2)
        \<or> current (deleted (heap sample_channel 2)) = True \<longrightarrow>
          heap dh' 2 = heap sample_channel 2
        \<and> count_list (reporter_deleted dh') 2 = count_list (reporter_deleted sample_channel) 2
        \<and> heap dh'' 2 = heap sample_channel 2
        \<and> count_list (reporter_deleted dh'') 2 = count_list (reporter_deleted sample_channel) 2"
    by blast
  from r1 s1 have e1: "dh' = ch'" by simp
  with r2 s2 have e2: "dh'' = ch''" by simp
  from swept b z have first: "current (deleted (heap ch' 1)) = True
        \<and> last (later (deleted (heap ch' 1))) = (7, True)
        \<and> count_list (reporter_deleted ch') 1 = 1
        \<and> heap ch'' 1 = heap ch' 1
        \<and> count_list (reporter_deleted ch'') 1 = 1"
    by simp
  from kept c z e1 e2 have second: "heap ch' 2 = heap sample_channel 2
        \<and> count_list (reporter_deleted ch') 2 = 0
        \<and> heap ch'' 2 = heap sample_channel 2
        \<and> count_list (reporter_deleted ch'') 2 = 0"
    by auto
  have stored': "1 < next_ref seen_channel"
    by (simp add: seen_channel_def sample_channel_def)
  have member': "1 \<in> set (videos seen_channel) \<union> set (livestreams seen_channel)
        \<union> set (shorts seen_channel)"
    by (simp add: seen_channel_def sample_channel_def)
  have s_vs: "1 \<in> set (videos seen_channel) \<longrightarrow>
      (\<forall>e \<in> set ?vs \<union> set ?vs2.
         formats e \<noteq> None \<and> formats e \<noteq> Some [] \<longrightarrow> entry_id e \<noteq> vid (heap seen_channel 1))"
    by (simp add: seen_channel_def sample_video_def sample_entry_def)
  have s_ls: "1 \<in> set (livestreams seen_channel) \<longrightarrow>
      (\<forall>e \<in> set [] \<union> set [].
         formats e \<noteq> None \<and> formats e \<noteq> Some [] \<longrightarrow> entry_id e \<noteq> vid (heap seen_channel 1))"
    by simp
  have s_ss: "1 \<in> set (shorts seen_channel) \<longrightarrow>
      (\<forall>e \<in> set [] \<union> set [].
         formats e \<noteq> None \<and> formats e \<noteq> Some [] \<longrightarrow> entry_id e \<noteq> vid (heap seen_channel 1))"
    by simp
  have s: "known_not_deleted (heap seen_channel 1) \<or> current (deleted (heap seen_channel 1)) = True"
    and s': "current (deleted (heap seen_channel 1)) = False"
    and z': "count_list (reporter_deleted seen_channel) 1 = 0"
    by (simp_all add: seen_channel_def sample_channel_def sample_video_def current_def)
  from deletion_sweep [OF normalize_sample normalize_later stored' member' s_vs s_ls s_ss,
      of sample_new sample_update 7 8]
  obtain eh' eh'' where
    t1: "parse_metadata None sample_new sample_update 7 sample_metadata seen_channel = Returned eh'"
    and t2: "parse_metadata None sample_new sample_update 8 later_metadata eh' = Returned eh''"
    and stale: "known_not_deleted (heap seen_channel 1)
        \<or> current (deleted (heap seen_channel 1)) = True \<longrightarrow>
          heap eh' 1 = heap seen_channel 1
        \<and> count_list (reporter_deleted eh') 1 = count_list (reporter_deleted seen_channel) 1
        \<and> heap eh'' 1 = heap seen_channel 1
        \<and> count_list (reporter_deleted eh'') 1 = count_list (reporter_deleted seen_channel) 1"
    by blast
  from stale s s' z' have third: "heap eh' 1 = heap seen_channel 1
     \<and> count_list (reporter_deleted eh') 1 = 0
     \<and> heap eh'' 1 = heap seen_channel 1
     \<and> count_list (reporter_deleted eh'') 1 = 0
     \<and> current (deleted (heap eh'' 1)) = False"
    by auto
  from r1 r2 first second have left: "\<exists>ch' ch''.
         parse_metadata None sample_new sample_update 7 sample_metadata sample_channel = Returned ch'
       \<and> parse_metadata None sample_new sample_update 8 later_metadata ch' = Returned ch''
       \<and> current (deleted (heap ch' 1)) = True
       \<and> last (later (deleted (heap ch' 1))) = (7, True)
       \<and> count_list (reporter_deleted ch') 1 = 1
       \<and> heap ch'' 1 = heap ch' 1
       \<and> count_list (reporter_deleted ch'') 1 = 1
       \<and> heap ch' 2 = heap sample_channel 2
       \<and> count_list (reporter_deleted ch') 2 = 0
       \<and> heap ch'' 2 = heap sample_channel 2
       \<and> count_list (reporter_deleted ch'') 2 = 0"
    by blast
  from t1 t2 third have right: "\<exists>ch' ch''.
       parse_metadata None sample_new sample_update 7 sample_metadata seen_channel = Returned ch'
     \<and> parse_metadata None sample_new sample_update 8 later_metadata ch' = Returned ch''
     \<and> heap ch' 1 = heap seen_channel 1
     \<and> count_list (reporter_deleted ch') 1 = 0
     \<and> heap ch'' 1 = heap seen_channel 1
     \<and> count_list (reporter_deleted ch'') 1 = 0
     \<and> current (deleted (heap ch'' 1)) = False"
    by blast
  from left right show ?thesis by blast
qed

text \<open>
  Claim C4 as stated says that a refresh marks every item that it does not observe and
  that is not deleted yet. The flag \<^verbatim>\<open>known_not_deleted\<close> that the sweep reads is set when an
  item is observed and is not reset by \<^verbatim>\<open>_parse_metadata\<close> or \<^verbatim>\<open>_report_deleted\<close>. On the sample
  archive, a first refresh observes a and b; the second document lists only a, so the
  second refresh does not observe b. After it b is still in the collection of videos,
  its flag is still set, its deletion history is false as before, and the reporter's
  bucket of deleted items is empty.
\<close>

theorem seen_once_is_never_swept:
  "normalize_metadata None later_metadata
     = Returned ([sample_entry ''a'' (Some [''22'']) 5], [], [])
   \<and> obind (parse_metadata None sample_new sample_update 7 seen_metadata sample_channel) (\<lambda>ch'.
     obind (parse_metadata None sample_new sample_update 8 later_metadata ch') (\<lambda>ch''.
     Returned (videos ch'', vid (heap ch'' 1), known_not_deleted (heap ch' 1),
               current (deleted (heap ch' 1)), current (deleted (heap ch'' 1)),
               reporter_deleted ch'')))
     = Returned ([0, 1], ''b'', True, False, False, [])"
  by (simp add: parse_metadata_def seen_metadata_def later_metadata_def parse_metadata_videos_def
      parse_metadata_videos_comp_def sort_newest_def report_deleted_all_def
      sample_channel_def sample_entry_def sample_video_def sample_new_def sample_update_def
      element_new_def element_update_def current_def Let_def)

text \<open>
  Claim C2 says that a group whose token is none of the three known ones aborts the
  refresh. \<^verbatim>\<open>_parse_metadata\<close> only calls \<^verbatim>\<open>_err_msg\<close> there, without the \<^verbatim>\<open>sys.exit(1)\<close>
  that follows the same call in \<^verbatim>\<open>migrate_step\<close> and \<^verbatim>\<open>_err_dl\<close>. With a helper that prints
  and returns, the refresh of the sample archive with the sample document goes on: the
  group of podcasts is dropped, the videos are merged (n is added, a is marked as
  seen) and the sweep runs (b is reported as deleted).
\<close>

theorem unknown_kind_does_not_abort:
  "\<exists>ch'. parse_metadata None sample_new sample_update 7 sample_metadata sample_channel
       = Returned ch'
     \<and> videos ch' = [3, 0, 1] \<and> livestreams ch' = [2] \<and> shorts ch' = []
     \<and> vid (heap ch' 3) = ''n''
     \<and> known_not_deleted (heap ch' 0)
     \<and> reporter_added ch' = [3]
     \<and> reporter_deleted ch' = [1]
     \<and> current (deleted (heap ch' 1)) = True"
  by (simp add: parse_metadata_def normalize_sample parse_metadata_videos_def
      parse_metadata_videos_comp_def sort_newest_def report_deleted_all_def
      sample_channel_def sample_entry_def sample_video_def sample_new_def sample_update_def
      element_new_def element_update_def current_def Let_def)


section \<open>Properties of the download\<close>

lemma fetch_loop_keeps:
  "curated (fst (fetch_loop url ydl now nd w)) = curated w
   \<and> slept (fst (fetch_loop url ydl now nd w)) = slept w"
proof (induction url ydl now nd w rule: fetch_loop.induct)
  case (1 url ydl now nd w)
  show ?case
    apply (subst (1 2) fetch_loop.simps)
    using "1.IH"
    apply (auto simp add: Let_def split: fetch_result.splits option.splits prod.splits)
    done
qed

lemma err_dl_retrying:
  "err_dl em True w = (w\<lparr>slept := slept w + 5\<rparr>, None)"
  by (simp add: err_dl_def)

lemma err_dl_final:
  "err_dl em False w = (w, Some (case em of None \<Rightarrow> 1 | Some c \<Rightarrow> c))"
  by (simp add: err_dl_def err_msg_def split: option.splits)

lemma download_from_empty:
  "i < 5 \<Longrightarrow> curate (media w) config (chan w) = [] \<Longrightarrow>
   download_from em url ydl now config i w = (w\<lparr>curated := Suc (curated w)\<rparr>, None)"
  by (subst download_from.simps) simp

lemma download_from_fetched:
  "i < 5 \<Longrightarrow> curate (media w) config (chan w) \<noteq> [] \<Longrightarrow>
   fetch_loop url ydl now (curate (media w) config (chan w)) (w\<lparr>curated := Suc (curated w)\<rparr>)
     = (w1, None) \<Longrightarrow>
   download_from em url ydl now config i w = (w1, None)"
  by (subst download_from.simps) simp

lemma download_from_retry:
  "i < 4 \<Longrightarrow> curate (media w) config (chan w) \<noteq> [] \<Longrightarrow>
   fetch_loop url ydl now (curate (media w) config (chan w)) (w\<lparr>curated := Suc (curated w)\<rparr>)
     = (w1, Some e) \<Longrightarrow>
   download_from em url ydl now config i w
     = download_from em url ydl now config (Suc i) (w1\<lparr>slept := slept w1 + 5\<rparr>)"
  by (subst download_from.simps) (simp add: err_dl_retrying)

lemma download_from_exit:
  "curate (media w) config (chan w) \<noteq> [] \<Longrightarrow>
   fetch_loop url ydl now (curate (media w) config (chan w)) (w\<lparr>curated := Suc (curated w)\<rparr>)
     = (w1, Some e) \<Longrightarrow>
   download_from em url ydl now config 4 w = (w1, Some (case em of None \<Rightarrow> 1 | Some c \<Rightarrow> c))"
  by (subst download_from.simps) (simp add: err_dl_final)

lemma download_from_counts:
  "i < 5 \<Longrightarrow>
   curated w < curated (fst (download_from em url ydl now config i w))
   \<and> curated (fst (download_from em url ydl now config i w)) + i \<le> curated w + 5
   \<and> slept (fst (download_from em url ydl now config i w)) + 5 + 5 * curated w
       = slept w + 5 * curated (fst (download_from em url ydl now config i w))
   \<and> (snd (download_from em url ydl now config i w) \<noteq> None \<longrightarrow>
        curated (fst (download_from em url ydl now config i w)) + i = curated w + 5
        \<and> snd (download_from em url ydl now config i w)
            = Some (case em of None \<Rightarrow> 1 | Some c \<Rightarrow> c))"
proof (induction "4 - i" arbitrary: i w)
  case 0
  then have i: "i = 4" by simp
  let ?nd = "curate (media w) config (chan w)"
  let ?w0 = "w\<lparr>curated := Suc (curated w)\<rparr>"
  show ?case
  proof (cases "?nd = []")
    case True
    then show ?thesis using i by (simp add: download_from_empty)
  next
    case False
    obtain w1 r where f: "fetch_loop url ydl now ?nd ?w0 = (w1, r)"
      by (cases "fetch_loop url ydl now ?nd ?w0")
    from fetch_loop_keeps [of url ydl now ?nd ?w0] f
    have k: "curated w1 = Suc (curated w)" "slept w1 = slept w" by simp_all
    show ?thesis
    proof (cases r)
      case None
      with f False i k show ?thesis by (simp add: download_from_fetched)
    next
      case (Some e)
      with f False i k show ?thesis by (simp add: download_from_exit)
    qed
  qed
next
  case (Suc n)
  then have i: "i < 4" and n: "n = 4 - Suc i" and i': "Suc i < 5" by simp_all
  let ?nd = "curate (media w) config (chan w)"
  let ?w0 = "w\<lparr>curated := Suc (curated w)\<rparr>"
  show ?case
  proof (cases "?nd = []")
    case True
    then show ?thesis using i by (simp add: download_from_empty)
  next
    case False
    obtain w1 r where f: "fetch_loop url ydl now ?nd ?w0 = (w1, r)"
      by (cases "fetch_loop url ydl now ?nd ?w0")
    from fetch_loop_keeps [of url ydl now ?nd ?w0] f
    have k: "curated w1 = Suc (curated w)" "slept w1 = slept w" by simp_all
    show ?thesis
    proof (cases r)
      case None
      with f False i k show ?thesis by (simp add: download_from_fetched)
    next
      case (Some e)
      let ?w2 = "w1\<lparr>slept := slept w1 + 5\<rparr>"
      have step: "download_from em url ydl now config i w
          = download_from em url ydl now config (Suc i) ?w2"
        using i False f Some by (simp add: download_from_retry)
      from Suc.hyps(1) [OF n i', of ?w2] k show ?thesis
        unfolding step by auto
    qed
  qed
qed


text \<open>
  Claim C6. A download curates and fetches at least once and at most five times, and
  it curates anew at the start of each attempt. Between two attempts it sleeps five
  seconds: the seconds slept are five times the attempts but one. It ends the process
  only after the fifth attempt has failed (with status 1, or the one of \<^verbatim>\<open>_err_msg\<close>),
  having slept twenty seconds; it returns no value then. At any attempt an empty curated
  list ends the operation, and so does a fetch that comes back; a failure that leaves
  the fetch loop before the fifth attempt is followed by the sleep and the next
  attempt, and at the fifth attempt by the end of the process.
\<close>

theorem download_retries_five_times:
  "curated w < curated (fst (download em url ydl now config w))
   \<and> curated (fst (download em url ydl now config w)) \<le> curated w + 5
   \<and> slept (fst (download em url ydl now config w)) + 5 + 5 * curated w
       = slept w + 5 * curated (fst (download em url ydl now config w))
   \<and> (snd (download em url ydl now config w) \<noteq> None \<longrightarrow>
        curated (fst (download em url ydl now config w)) = curated w + 5
        \<and> slept (fst (download em url ydl now config w)) = slept w + 20
        \<and> snd (download em url ydl now config w) = Some (case em of None \<Rightarrow> 1 | Some c \<Rightarrow> c))
   \<and> (i < 5 \<and> curate (media w) config (chan w) = [] \<longrightarrow>
        download_from em url ydl now config i w = (w\<lparr>curated := Suc (curated w)\<rparr>, None))
   \<and> (i < 5 \<and> curate (media w) config (chan w) \<noteq> []
        \<and> fetch_loop url ydl now (curate (media w) config (chan w))
             (w\<lparr>curated := Suc (curated w)\<rparr>) = (w1, None) \<longrightarrow>
        download_from em url ydl now config i w = (w1, None))
   \<and> (i < 4 \<and> curate (media w) config (chan w) \<noteq> []
        \<and> fetch_loop url ydl now (curate (media w) config (chan w))
             (w\<lparr>curated := Suc (curated w)\<rparr>) = (w1, Some e) \<longrightarrow>
        download_from em url ydl now config i w
          = download_from em url ydl now config (Suc i) (w1\<lparr>slept := slept w1 + 5\<rparr>))
   \<and> (curate (media w) config (chan w) \<noteq> []
        \<and> fetch_loop url ydl now (curate (media w) config (chan w))
             (w\<lparr>curated := Suc (curated w)\<rparr>) = (w1, Some e) \<longrightarrow>
        download_from em url ydl now config 4 w
          = (w1, Some (case em of None \<Rightarrow> 1 | Some c \<Rightarrow> c)))"
proof -
  have c: "curated w < curated (fst (download em url ydl now config w))
   \<and> curated (fst (download em url ydl now config w)) \<le> curated w + 5
   \<and> slept (fst (download em url ydl now config w)) + 5 + 5 * curated w
       = slept w + 5 * curated (fst (download em url ydl now config w))
   \<and> (snd (download em url ydl now config w) \<noteq> None \<longrightarrow>
        curated (fst (download em url ydl now config w)) = curated w + 5
        \<and> snd (download em url ydl now config w) = Some (case em of None \<Rightarrow> 1 | Some c \<Rightarrow> c))"
    using download_from_counts [of 0 w em url ydl now config] by (simp add: download_def)
  then have s: "snd (download em url ydl now config w) \<noteq> None \<longrightarrow>
      slept (fst (download em url ydl now config w)) = slept w + 20"
    by auto
  from c s show ?thesis
    by (auto simp add: download_from_empty download_from_fetched download_from_retry
        download_from_exit)
qed

text \<open>The classification of some messages, and the sample runs.\<close>

lemma classify_examples:
  "private_or_removed ''ERROR: [youtube] b: This video has been removed by the uploader''
   \<and> private_or_removed ''ERROR: [youtube] c: Private video. Sign in''
   \<and> \<not> private_or_removed ''ERROR: Downloaded 5 bytes, expected 9 bytes''
   \<and> no_format ''ERROR: Downloaded 5 bytes, expected 9 bytes''
   \<and> \<not> private_or_removed ''<urlopen error timed out>''
   \<and> \<not> no_format ''<urlopen error timed out>''"
  by code_simp

lemma fetch_loop_failing:
  "fetch_loop url failing_ydl now nd w
     = (w\<lparr>calls := Suc (calls w)\<rparr>, Some (DownloadError ''<urlopen error timed out>''))"
  using classify_examples
  by (subst fetch_loop.simps) (simp add: failing_ydl_def)

lemma curate_sample:
  "curate {} no_limits sample_channel = [0, 1, 2]"
  by (simp add: curate_def curate_list_def no_limits_def sample_channel_def downloaded_def)


text \<open>With a fetch engine that times out at every call: five attempts, twenty seconds,
  status 1. With every media file present, the attempt with index 3 returns at once.\<close>

theorem download_retries_five_times_witness:
  "snd (download None sample_url failing_ydl 7 no_limits sample_world) = Some 1
   \<and> curated (fst (download None sample_url failing_ydl 7 no_limits sample_world)) = 5
   \<and> slept (fst (download None sample_url failing_ydl 7 no_limits sample_world)) = 20
   \<and> calls (fst (download None sample_url failing_ydl 7 no_limits sample_world)) = 5
   \<and> download_from None sample_url failing_ydl 7 no_limits 3
       (sample_world\<lparr>media := {''a'', ''b'', ''c''}\<rparr>)
     = (sample_world\<lparr>media := {''a'', ''b'', ''c''}, curated := 1\<rparr>, None)"
proof -
  let ?r = "download None sample_url failing_ydl 7 no_limits sample_world"
  let ?full = "sample_world\<lparr>media := {''a'', ''b'', ''c''}\<rparr>"
  have run: "?r = (sample_world\<lparr>calls := 5, slept := 20, curated := 5\<rparr>, Some 1)"
    by (simp add: download_def download_from.simps fetch_loop_failing curate_sample
        sample_world_def err_dl_def err_msg_def)
  then have ne: "snd ?r \<noteq> None" and cl: "calls (fst ?r) = 5"
    by simp_all
  note inst = download_retries_five_times [of sample_world None sample_url failing_ydl 7 no_limits
      3 sample_world e]
  from inst ne have a: "curated (fst ?r) = curated sample_world + 5
      \<and> slept (fst ?r) = slept sample_world + 20
      \<and> snd ?r = Some (case None of None \<Rightarrow> 1 | Some c \<Rightarrow> c)"
    by blast
  have e: "3 < (5::nat) \<and> curate (media ?full) no_limits (chan ?full) = []"
    by (simp add: curate_def curate_list_def no_limits_def sample_world_def sample_channel_def
        sample_video_def downloaded_def)
  from download_retries_five_times [of ?full None sample_url failing_ydl 7 no_limits 3 ?full e] e
  have b: "download_from None sample_url failing_ydl 7 no_limits 3 ?full
      = (?full\<lparr>curated := Suc (curated ?full)\<rparr>, None)"
    by blast
  from a b cl show ?thesis
    by (simp add: sample_world_def)
qed


lemma skip_video_first:
  "\<forall>p \<in> set before. downloaded files (h p) \<Longrightarrow> \<not> downloaded files (h video) \<Longrightarrow>
   skip_video files h (before @ video # rest) = Some (rest, video)"
  by (induction before) auto

lemma skip_video_none:
  "\<forall>p \<in> set vs. downloaded files (h p) \<Longrightarrow> skip_video files h vs = None"
  by (induction vs) auto

lemma mark_deleted_facts:
  "current (deleted (heap (mark_deleted now video ch) video)) = True
   \<and> reporter_deleted (mark_deleted now video ch)
       = reporter_deleted ch @ (if current (deleted (heap ch video)) then [] else [video])
   \<and> (current (deleted (heap ch video)) \<longrightarrow> mark_deleted now video ch = ch)"
  by (simp add: mark_deleted_def current_element_update)

lemma fetch_loop_private:
  "ydl (calls w) (map (\<lambda>video. url (heap (chan w) video)) pending) = (files, Failed msg) \<Longrightarrow>
   private_or_removed msg \<Longrightarrow>
   skip_video (media w \<union> files) (heap (chan w)) pending = Some (rest, video) \<Longrightarrow>
   fetch_loop url ydl now pending w
     = fetch_loop url ydl now rest
         (w\<lparr>media := media w \<union> files, calls := Suc (calls w),
            chan := mark_deleted now video (chan w)\<rparr>)"
  by (subst fetch_loop.simps) (simp add: Let_def)

lemma fetch_loop_no_format:
  "ydl (calls w) (map (\<lambda>video. url (heap (chan w) video)) pending) = (files, Failed msg) \<Longrightarrow>
   \<not> private_or_removed msg \<Longrightarrow> no_format msg \<Longrightarrow>
   skip_video (media w \<union> files) (heap (chan w)) pending = Some (rest, video) \<Longrightarrow>
   fetch_loop url ydl now pending w
     = fetch_loop url ydl now rest (w\<lparr>media := media w \<union> files, calls := Suc (calls w)\<rparr>)"
  by (subst fetch_loop.simps) (simp add: Let_def)

lemma fetch_loop_nothing_to_skip:
  "ydl (calls w) (map (\<lambda>video. url (heap (chan w) video)) pending) = (files, Failed msg) \<Longrightarrow>
   private_or_removed msg \<or> no_format msg \<Longrightarrow>
   skip_video (media w \<union> files) (heap (chan w)) pending = None \<Longrightarrow>
   fetch_loop url ydl now pending w
     = (w\<lparr>media := media w \<union> files, calls := Suc (calls w)\<rparr>, Some NothingToSkip)"
  by (subst fetch_loop.simps) (auto simp add: Let_def)

text \<open>
  Claim C3, amended. When a call of the fetch engine fails with a message classified as
  a private or removed item and the pending list holds an undownloaded item, the loop
  goes on with the items after the first undownloaded one; the deletion history of that
  item is true afterwards, it is appended to the reporter's bucket of deleted items
  exactly when its history was not true before, and the archive is unchanged when it
  was. A failure with a size mismatch in its message is handled inline too: the loop
  goes on after the first undownloaded item, and the archive is not touched. A
  classified failure leaves the loop with an exception when every pending item is
  downloaded; a failure with neither classification leaves it with the
  \<^verbatim>\<open>DownloadError\<close>, and any other exception leaves it as well: these reach the outer
  retry loop. The fetch loop itself never changes the number of attempts or the time
  slept.
\<close>

theorem skip_private_or_removed:
  "(ydl (calls w) (map (\<lambda>video. url (heap (chan w) video)) pending) = (files, Failed msg)
      \<and> private_or_removed msg
      \<and> pending = before @ video # rest
      \<and> (\<forall>p \<in> set before. downloaded (media w \<union> files) (heap (chan w) p))
      \<and> \<not> downloaded (media w \<union> files) (heap (chan w) video) \<longrightarrow>
      fetch_loop url ydl now pending w
        = fetch_loop url ydl now rest
            (w\<lparr>media := media w \<union> files, calls := Suc (calls w),
               chan := mark_deleted now video (chan w)\<rparr>)
      \<and> current (deleted (heap (mark_deleted now video (chan w)) video)) = True
      \<and> reporter_deleted (mark_deleted now video (chan w))
          = reporter_deleted (chan w)
            @ (if current (deleted (heap (chan w) video)) then [] else [video])
      \<and> (current (deleted (heap (chan w) video)) \<longrightarrow>
           mark_deleted now video (chan w) = chan w))
   \<and> (ydl (calls w) (map (\<lambda>video. url (heap (chan w) video)) pending) = (files, Failed msg)
      \<and> \<not> private_or_removed msg \<and> no_format msg
      \<and> pending = before @ video # rest
      \<and> (\<forall>p \<in> set before. downloaded (media w \<union> files) (heap (chan w) p))
      \<and> \<not> downloaded (media w \<union> files) (heap (chan w) video) \<longrightarrow>
      fetch_loop url ydl now pending w
        = fetch_loop url ydl now rest (w\<lparr>media := media w \<union> files, calls := Suc (calls w)\<rparr>))
   \<and> (ydl (calls w) (map (\<lambda>video. url (heap (chan w) video)) pending) = (files, Failed msg)
      \<and> (private_or_removed msg \<or> no_format msg)
      \<and> (\<forall>p \<in> set pending. downloaded (media w \<union> files) (heap (chan w) p)) \<longrightarrow>
      fetch_loop url ydl now pending w
        = (w\<lparr>media := media w \<union> files, calls := Suc (calls w)\<rparr>, Some NothingToSkip))
   \<and> (ydl (calls w) (map (\<lambda>video. url (heap (chan w) video)) pending) = (files, Failed msg)
      \<and> \<not> private_or_removed msg \<and> \<not> no_format msg \<longrightarrow>
      fetch_loop url ydl now pending w
        = (w\<lparr>media := media w \<union> files, calls := Suc (calls w)\<rparr>, Some (DownloadError msg)))
   \<and> (ydl (calls w) (map (\<lambda>video. url (heap (chan w) video)) pending) = (files, Crashed) \<longrightarrow>
      fetch_loop url ydl now pending w
        = (w\<lparr>media := media w \<union> files, calls := Suc (calls w)\<rparr>, Some OtherException))
   \<and> curated (fst (fetch_loop url ydl now pending w)) = curated w
   \<and> slept (fst (fetch_loop url ydl now pending w)) = slept w"
proof (intro conjI impI)
  assume a: "ydl (calls w) (map (\<lambda>video. url (heap (chan w) video)) pending) = (files, Failed msg)
      \<and> private_or_removed msg
      \<and> pending = before @ video # rest
      \<and> (\<forall>p \<in> set before. downloaded (media w \<union> files) (heap (chan w) p))
      \<and> \<not> downloaded (media w \<union> files) (heap (chan w) video)"
  then have s: "skip_video (media w \<union> files) (heap (chan w)) pending = Some (rest, video)"
    by (simp add: skip_video_first)
  from a have e: "ydl (calls w) (map (\<lambda>video. url (heap (chan w) video)) pending)
      = (files, Failed msg)" and c: "private_or_removed msg"
    by blast+
  show "fetch_loop url ydl now pending w
        = fetch_loop url ydl now rest
            (w\<lparr>media := media w \<union> files, calls := Suc (calls w),
               chan := mark_deleted now video (chan w)\<rparr>)"
    using e c s by (rule fetch_loop_private)
  show "current (deleted (heap (mark_deleted now video (chan w)) video)) = True"
    and "reporter_deleted (mark_deleted now video (chan w))
          = reporter_deleted (chan w)
            @ (if current (deleted (heap (chan w) video)) then [] else [video])"
    and "current (deleted (heap (chan w) video)) \<Longrightarrow> mark_deleted now video (chan w) = chan w"
    using mark_deleted_facts [of now video "chan w"] by blast+
next
  assume a: "ydl (calls w) (map (\<lambda>video. url (heap (chan w) video)) pending) = (files, Failed msg)
      \<and> \<not> private_or_removed msg \<and> no_format msg
      \<and> pending = before @ video # rest
      \<and> (\<forall>p \<in> set before. downloaded (media w \<union> files) (heap (chan w) p))
      \<and> \<not> downloaded (media w \<union> files) (heap (chan w) video)"
  then have s: "skip_video (media w \<union> files) (heap (chan w)) pending = Some (rest, video)"
    by (simp add: skip_video_first)
  from a have e: "ydl (calls w) (map (\<lambda>video. url (heap (chan w) video)) pending)
      = (files, Failed msg)" and c: "\<not> private_or_removed msg" "no_format msg"
    by blast+
  show "fetch_loop url ydl now pending w
        = fetch_loop url ydl now rest (w\<lparr>media := media w \<union> files, calls := Suc (calls w)\<rparr>)"
    using e c s by (rule fetch_loop_no_format)
next
  assume a: "ydl (calls w) (map (\<lambda>video. url (heap (chan w) video)) pending) = (files, Failed msg)
      \<and> (private_or_removed msg \<or> no_format msg)
      \<and> (\<forall>p \<in> set pending. downloaded (media w \<union> files) (heap (chan w) p))"
  then have s: "skip_video (media w \<union> files) (heap (chan w)) pending = None"
    by (simp add: skip_video_none)
  from a have e: "ydl (calls w) (map (\<lambda>video. url (heap (chan w) video)) pending)
      = (files, Failed msg)" and c: "private_or_removed msg \<or> no_format msg"
    by blast+
  show "fetch_loop url ydl now pending w
        = (w\<lparr>media := media w \<union> files, calls := Suc (calls w)\<rparr>, Some NothingToSkip)"
    using e c s by (rule fetch_loop_nothing_to_skip)
next
  assume "ydl (calls w) (map (\<lambda>video. url (heap (chan w) video)) pending) = (files, Failed msg)
      \<and> \<not> private_or_removed msg \<and> \<not> no_format msg"
  then show "fetch_loop url ydl now pending w
        = (w\<lparr>media := media w \<union> files, calls := Suc (calls w)\<rparr>, Some (DownloadError msg))"
    by (subst fetch_loop.simps) (simp add: Let_def)
next
  assume "ydl (calls w) (map (\<lambda>video. url (heap (chan w) video)) pending) = (files, Crashed)"
  then show "fetch_loop url ydl now pending w
        = (w\<lparr>media := media w \<union> files, calls := Suc (calls w)\<rparr>, Some OtherException)"
    by (subst fetch_loop.simps) (simp add: Let_def)
next
  show "curated (fst (fetch_loop url ydl now pending w)) = curated w"
    and "slept (fst (fetch_loop url ydl now pending w)) = slept w"
    using fetch_loop_keeps [of url ydl now pending w] by blast+
qed


lemma sample_items:
  "vid (heap sample_channel 0) = ''a'' \<and> vid (heap sample_channel 1) = ''b''
   \<and> vid (heap sample_channel 2) = ''c''
   \<and> \<not> current (deleted (heap sample_channel 1))
   \<and> current (deleted (heap sample_channel 2))
   \<and> reporter_deleted sample_channel = []"
  by (simp add: sample_channel_def sample_video_def current_def)

text \<open>On the sample archive, with an engine that writes a, reports b as removed and then
  c as private: b is marked and reported, c was deleted before and is not reported
  again, and the download returns after a single attempt.\<close>

theorem skip_private_or_removed_witness:
  "fetch_loop sample_url removed_ydl 7 [0, 1, 2] sample_world
     = fetch_loop sample_url removed_ydl 7 [2]
         (sample_world\<lparr>media := {''a''}, calls := 1, chan := mark_deleted 7 1 sample_channel\<rparr>)
   \<and> current (deleted (heap (mark_deleted 7 1 sample_channel) 1)) = True
   \<and> reporter_deleted (mark_deleted 7 1 sample_channel) = [1]
   \<and> snd (download None sample_url removed_ydl 7 no_limits sample_world) = None
   \<and> curated (fst (download None sample_url removed_ydl 7 no_limits sample_world)) = 1
   \<and> slept (fst (download None sample_url removed_ydl 7 no_limits sample_world)) = 0
   \<and> calls (fst (download None sample_url removed_ydl 7 no_limits sample_world)) = 3
   \<and> reporter_deleted (chan (fst (download None sample_url removed_ydl 7 no_limits sample_world)))
       = [1]"
proof -
  let ?msg = "''ERROR: [youtube] b: This video has been removed by the uploader''"
  have h: "removed_ydl (calls sample_world)
        (map (\<lambda>video. sample_url (heap (chan sample_world) video)) [0, 1, 2])
        = ({''a''}, Failed ?msg)
      \<and> private_or_removed ?msg
      \<and> [0, 1, 2] = [0] @ 1 # [2]
      \<and> (\<forall>p \<in> set [0]. downloaded (media sample_world \<union> {''a''}) (heap (chan sample_world) p))
      \<and> \<not> downloaded (media sample_world \<union> {''a''}) (heap (chan sample_world) 1)"
    using classify_examples
    by (simp add: removed_ydl_def sample_world_def sample_channel_def sample_video_def
        downloaded_def)
  note inst = skip_private_or_removed [of removed_ydl sample_world sample_url "[0, 1, 2]"
      "{''a''}" ?msg "[0]" 1 "[2]" 7]
  from inst [THEN conjunct1, THEN mp, OF h]
  have step: "fetch_loop sample_url removed_ydl 7 [0, 1, 2] sample_world
     = fetch_loop sample_url removed_ydl 7 [2]
         (sample_world\<lparr>media := {''a''}, calls := 1, chan := mark_deleted 7 1 sample_channel\<rparr>)
   \<and> current (deleted (heap (mark_deleted 7 1 sample_channel) 1)) = True
   \<and> reporter_deleted (mark_deleted 7 1 sample_channel) = [1]"
    by (simp add: sample_world_def sample_channel_def sample_video_def current_def)
  have run: "snd (download None sample_url removed_ydl 7 no_limits sample_world) = None
   \<and> curated (fst (download None sample_url removed_ydl 7 no_limits sample_world)) = 1
   \<and> slept (fst (download None sample_url removed_ydl 7 no_limits sample_world)) = 0
   \<and> calls (fst (download None sample_url removed_ydl 7 no_limits sample_world)) = 3
   \<and> reporter_deleted (chan (fst (download None sample_url removed_ydl 7 no_limits sample_world)))
       = [1]"
    using classify_examples sample_items
    by (simp add: download_def download_from.simps fetch_loop.simps curate_sample
        sample_world_def removed_ydl_def downloaded_def mark_deleted_def Let_def)
  from step run show ?thesis by blast
qed

text \<open>
  Claim C3 as stated says that every failure other than a private or removed item
  reaches the outer retry loop. A size mismatch is no such failure, and the fetch loop
  handles it: the loop is left without an exception, and the download returns after one
  attempt without sleeping and without reporting a deletion.
\<close>

theorem size_mismatch_does_not_propagate:
  "\<not> private_or_removed ''ERROR: Downloaded 5 bytes, expected 9 bytes''
   \<and> snd (short_ydl 0 (map (\<lambda>video. sample_url (heap sample_channel video)) [0, 1, 2]))
       = Failed ''ERROR: Downloaded 5 bytes, expected 9 bytes''
   \<and> snd (fetch_loop sample_url short_ydl 7 [0, 1, 2] sample_world) = None
   \<and> snd (download None sample_url short_ydl 7 no_limits sample_world) = None
   \<and> curated (fst (download None sample_url short_ydl 7 no_limits sample_world)) = 1
   \<and> slept (fst (download None sample_url short_ydl 7 no_limits sample_world)) = 0
   \<and> calls (fst (download None sample_url short_ydl 7 no_limits sample_world)) = 2
   \<and> reporter_deleted (chan (fst (download None sample_url short_ydl 7 no_limits sample_world)))
       = []"
  using classify_examples sample_items
  by (simp add: download_def download_from.simps fetch_loop.simps curate_sample
      sample_world_def short_ydl_def sample_url_def downloaded_def Let_def)


end
